theory Spec2Isabelle
  imports Main "HOL-Library.Word"
begin

section \<open>Text\<close>

text \<open>
  A Python \<open>str\<close> is a sequence of Unicode code points. It is modelled as a list of
  natural numbers, one per code point, so that \<open>length\<close> counts what Python's \<open>len\<close>
  counts. The literals of the source are written with \<open>T\<close>.
\<close>

type_synonym pystr = "nat list"

definition T :: "string \<Rightarrow> pystr" where
  "T s = map of_char s"

text \<open>\<open>hay.startswith(needle)\<close>\<close>

fun startswith :: "pystr \<Rightarrow> pystr \<Rightarrow> bool" where
  "startswith hay [] = True"
| "startswith [] (n # ns) = False"
| "startswith (h # hs) (n # ns) = (h = n \<and> startswith hs ns)"

text \<open>\<open>needle in hay\<close> for two strings: the needle occurs as a contiguous run.\<close>

fun str_contains :: "pystr \<Rightarrow> pystr \<Rightarrow> bool" where
  "str_contains [] needle = (needle = [])"
| "str_contains (h # hs) needle = (startswith (h # hs) needle \<or> str_contains hs needle)"

section \<open>setup\_powerbi\_mcp\_db.py: the Power Query source-type classifier\<close>

text \<open>
  \<^verbatim>\<open>
  def extract_source_type(m_expression):
      if 'Excel.Workbook' in m_expression:              return 'Excel'
      elif 'AzureStorage.BlobContents' in m_expression: return 'Azure Blob Storage'
      elif 'Table.FromRows' in m_expression:            return 'Embedded Table'
      elif 'Sql.Database' in m_expression:              return 'SQL Database'
      elif 'Web.Contents' in m_expression:              return 'Web Source'
      else:                                             return 'Other'
  \<close>
\<close>

definition extract_source_type :: "pystr \<Rightarrow> pystr" where
  "extract_source_type m_expression =
     (if str_contains m_expression (T ''Excel.Workbook'') then T ''Excel''
      else if str_contains m_expression (T ''AzureStorage.BlobContents'') then T ''Azure Blob Storage''
      else if str_contains m_expression (T ''Table.FromRows'') then T ''Embedded Table''
      else if str_contains m_expression (T ''Sql.Database'') then T ''SQL Database''
      else if str_contains m_expression (T ''Web.Contents'') then T ''Web Source''
      else T ''Other'')"

definition source_labels :: "pystr list" where
  "source_labels = [T ''Excel'', T ''Azure Blob Storage'', T ''Embedded Table'',
                    T ''SQL Database'', T ''Web Source'', T ''Other'']"


section \<open>JSON values and the Python operations the sources apply to them\<close>

text \<open>
  The value \<open>json.loads\<close> returns: \<open>None\<close>, a bool, an int, a float, a str, a list or
  a dict. A dict is an association list in insertion order (its keys distinct); a float is
  kept as the number literal it was read from, since no code modelled here computes with
  floats except to round or print them.
\<close>

datatype json =
    JNull
  | JBool bool
  | JInt int
  | JFloat pystr
  | JStr pystr
  | JArr "json list"
  | JObj "(pystr \<times> json) list"

datatype pyerr =
    KeyError | TypeError | AttributeError | JSONDecodeError | RecursionError | ValueError
  | OSError | InterfaceError | OverflowError | DatabaseError

definition err_bind :: "'e + 'a \<Rightarrow> ('a \<Rightarrow> 'e + 'b) \<Rightarrow> 'e + 'b" where
  "err_bind m f = (case m of Inl e \<Rightarrow> Inl e | Inr x \<Rightarrow> f x)"

text \<open>\<open>k in c\<close> for a string \<open>k\<close>: key of a dict, element of a list, substring of a
  string; any other operand raises TypeError.\<close>

fun py_in :: "pystr \<Rightarrow> json \<Rightarrow> pyerr + bool" where
  "py_in k (JObj kvs) = Inr (map_of kvs k \<noteq> None)"
| "py_in k (JArr xs) = Inr (JStr k \<in> set xs)"
| "py_in k (JStr s) = Inr (str_contains s k)"
| "py_in k _ = Inl TypeError"

text \<open>\<open>c[k]\<close> for a string \<open>k\<close>: KeyError on a dict without the key, TypeError on anything
  that is not a dict.\<close>

fun py_getitem :: "json \<Rightarrow> pystr \<Rightarrow> pyerr + json" where
  "py_getitem (JObj kvs) k = (case map_of kvs k of None \<Rightarrow> Inl KeyError | Some v \<Rightarrow> Inr v)"
| "py_getitem _ k = Inl TypeError"

text \<open>\<open>c.get(k, d)\<close>, \<open>c.items()\<close>: only a dict has these methods.\<close>

fun py_get :: "json \<Rightarrow> pystr \<Rightarrow> json \<Rightarrow> pyerr + json" where
  "py_get (JObj kvs) k d = Inr (case map_of kvs k of None \<Rightarrow> d | Some v \<Rightarrow> v)"
| "py_get _ k d = Inl AttributeError"

fun py_items :: "json \<Rightarrow> pyerr + (pystr \<times> json) list" where
  "py_items (JObj kvs) = Inr kvs"
| "py_items _ = Inl AttributeError"

text \<open>\<open>for x in c\<close>: the elements of a list, the characters of a string, the keys of a
  dict; anything else is not iterable.\<close>

fun py_iter :: "json \<Rightarrow> pyerr + json list" where
  "py_iter (JArr xs) = Inr xs"
| "py_iter (JStr s) = Inr (map (\<lambda>c. JStr [c]) s)"
| "py_iter (JObj kvs) = Inr (map (\<lambda>kv. JStr (fst kv)) kvs)"
| "py_iter _ = Inl TypeError"

text \<open>\<open>d[k] = v\<close> on a dict: an existing key keeps its place.\<close>

fun dict_set :: "(pystr \<times> json) list \<Rightarrow> pystr \<Rightarrow> json \<Rightarrow> (pystr \<times> json) list" where
  "dict_set [] k v = [(k, v)]"
| "dict_set ((k', v') # kvs) k v = (if k' = k then (k, v) # kvs else (k', v') # dict_set kvs k v)"

text \<open>\<open>xs.append(x)\<close> and \<open>xs.extend(it)\<close>: methods of a list only. The attribute is
  looked up before the argument is iterated.\<close>

fun list_append :: "json \<Rightarrow> json \<Rightarrow> pyerr + json" where
  "list_append (JArr xs) x = Inr (JArr (xs @ [x]))"
| "list_append _ x = Inl AttributeError"

fun list_extend :: "json \<Rightarrow> json \<Rightarrow> pyerr + json" where
  "list_extend (JArr xs) it = err_bind (py_iter it) (\<lambda>ys. Inr (JArr (xs @ ys)))"
| "list_extend _ it = Inl AttributeError"

text \<open>\<open>s.strip(cs)\<close> with a one-character set, \<open>s[:n]\<close>.\<close>

definition strip_char :: "nat \<Rightarrow> pystr \<Rightarrow> pystr" where
  "strip_char c s = rev (dropWhile (\<lambda>x. x = c) (rev (dropWhile (\<lambda>x. x = c) s)))"

text \<open>\<open>v.strip("'")\<close> on a value: a method of strings only.\<close>

fun py_strip_quote :: "json \<Rightarrow> pyerr + pystr" where
  "py_strip_quote (JStr s) = Inr (strip_char 39 s)"
| "py_strip_quote _ = Inl AttributeError"

text \<open>\<open>a in c and b in c[a]\<close>\<close>

definition in_and_in :: "pystr \<Rightarrow> pystr \<Rightarrow> json \<Rightarrow> pyerr + bool" where
  "in_and_in a b c =
     err_bind (py_in a c) (\<lambda>p.
       if p then err_bind (py_getitem c a) (\<lambda>ca. py_in b ca) else Inr False)"

section \<open>parse\_pbix\_ui.py: PBIXVisualParser\<close>

definition VISUAL_TYPE_MAP :: "(pystr \<times> pystr) list" where
  "VISUAL_TYPE_MAP =
    [(T ''actionButton'', T ''Action Button''),
     (T ''card'', T ''Card''),
     (T ''columnChart'', T ''Column Chart''),
     (T ''barChart'', T ''Bar Chart''),
     (T ''lineChart'', T ''Line Chart''),
     (T ''areaChart'', T ''Area Chart''),
     (T ''pieChart'', T ''Pie Chart''),
     (T ''donutChart'', T ''Donut Chart''),
     (T ''tableEx'', T ''Table''),
     (T ''matrix'', T ''Matrix''),
     (T ''slicer'', T ''Slicer''),
     (T ''gauge'', T ''Gauge''),
     (T ''scatterChart'', T ''Scatter Chart''),
     (T ''map'', T ''Map''),
     (T ''filledMap'', T ''Filled Map''),
     (T ''treemap'', T ''Treemap''),
     (T ''waterfallChart'', T ''Waterfall Chart''),
     (T ''funnelChart'', T ''Funnel Chart''),
     (T ''ribbonChart'', T ''Ribbon Chart''),
     (T ''textbox'', T ''Text Box''),
     (T ''shape'', T ''Shape''),
     (T ''image'', T ''Image''),
     (T ''multiRowCard'', T ''Multi-row Card''),
     (T ''kpi'', T ''KPI''),
     (T ''stackedAreaChart'', T ''Stacked Area Chart''),
     (T ''clusteredBarChart'', T ''Clustered Bar Chart''),
     (T ''stackedBarChart'', T ''Stacked Bar Chart''),
     (T ''clusteredColumnChart'', T ''Clustered Column Chart''),
     (T ''stackedColumnChart'', T ''Stacked Column Chart''),
     (T ''lineStackedColumnComboChart'', T ''Line and Stacked Column Chart''),
     (T ''lineClusteredColumnComboChart'', T ''Line and Clustered Column Chart''),
     (T ''100stackedBarChart'', T ''100% Stacked Bar Chart''),
     (T ''100stackedColumnChart'', T ''100% Stacked Column Chart''),
     (T ''htmlViewer'', T ''HTML Viewer'')]"

text \<open>
  \<open>VISUAL_TYPE_MAP.get(visual_type, visual_type)\<close>: the key is hashed first, so a list
  or a dict raises TypeError; a string is looked up; every other value is no key of the
  table and comes back as it is.
\<close>

fun visual_type_lookup :: "json \<Rightarrow> pyerr + json" where
  "visual_type_lookup (JStr code) =
     Inr (case map_of VISUAL_TYPE_MAP code of None \<Rightarrow> JStr code | Some name \<Rightarrow> JStr name)"
| "visual_type_lookup (JArr xs) = Inl TypeError"
| "visual_type_lookup (JObj kvs) = Inl TypeError"
| "visual_type_lookup v = Inr v"

text \<open>
  \<^verbatim>\<open>
  def extract_visual_type(self, config):
      if 'singleVisual' in config and 'visualType' in config['singleVisual']:
          visual_type = config['singleVisual']['visualType']
          return self.VISUAL_TYPE_MAP.get(visual_type, visual_type)
      return "Unknown"
  \<close>
\<close>

definition extract_visual_type :: "json \<Rightarrow> pyerr + json" where
  "extract_visual_type config =
     err_bind (in_and_in (T ''singleVisual'') (T ''visualType'') config) (\<lambda>p.
       if p then
         err_bind (py_getitem config (T ''singleVisual'')) (\<lambda>sv.
         err_bind (py_getitem sv (T ''visualType'')) (\<lambda>visual_type.
           visual_type_lookup visual_type))
       else Inr (JStr (T ''Unknown'')))"


section \<open>json.loads\<close>

text \<open>
  The decoder of Python's \<open>json\<close> module with its defaults, for a \<open>str\<close>: whitespace is
  space, tab, newline and carriage return; strings are strict (no raw control character);
  \<open>NaN\<close>, \<open>Infinity\<close> and \<open>-Infinity\<close> are read as floats; a repeated key keeps its
  first place and its last value; anything after the value but whitespace is an error, and
  so is a leading byte-order mark. Every scanner returns what it read and the number of
  characters it consumed.

  The decoder fails in three ways, and the first failure met in reading order is the one
  raised. A syntax error raises JSONDecodeError. Every array and object entered costs
  one level of the interpreter's recursion: entering one when none is left raises
  RecursionError (\<open>recursion_depth\<close> is the number of levels the interpreter has left
  when \<open>json.loads\<close> is called, about a thousand by default). An integer literal of
  more than \<open>int_max_str_digits\<close> digits raises a plain ValueError (4300 by default, 0
  for no limit; the interpreter looks at the limit only for literals of more than 640
  digits, the least limit it can be given). Neither of the last two is a JSONDecodeError.
\<close>

datatype py_limits = Limits (recursion_depth: nat) (int_max_str_digits: nat)

definition is_ws :: "nat \<Rightarrow> bool" where
  "is_ws c = (c = 32 \<or> c = 9 \<or> c = 10 \<or> c = 13)"

definition ws_len :: "pystr \<Rightarrow> nat" where
  "ws_len cs = length (takeWhile is_ws cs)"

definition is_digit :: "nat \<Rightarrow> bool" where
  "is_digit c = (48 \<le> c \<and> c \<le> 57)"

definition hex_val :: "nat \<Rightarrow> nat option" where
  "hex_val c =
     (if 48 \<le> c \<and> c \<le> 57 then Some (c - 48)
      else if 97 \<le> c \<and> c \<le> 102 then Some (c - 87)
      else if 65 \<le> c \<and> c \<le> 70 then Some (c - 55)
      else None)"

text \<open>Four hexadecimal digits at the head of the input.\<close>

fun hex4 :: "pystr \<Rightarrow> nat option" where
  "hex4 (a # b # c # d # rest) =
     (case (hex_val a, hex_val b, hex_val c, hex_val d) of
        (Some x, Some y, Some z, Some w) \<Rightarrow> Some (4096 * x + 256 * y + 16 * z + w)
      | _ \<Rightarrow> None)"
| "hex4 _ = None"

definition simple_escape :: "nat \<Rightarrow> nat option" where
  "simple_escape e =
     (if e = 34 \<or> e = 92 \<or> e = 47 then Some e
      else if e = 98 then Some 8
      else if e = 102 then Some 12
      else if e = 110 then Some 10
      else if e = 114 then Some 13
      else if e = 116 then Some 9
      else None)"

text \<open>
  The body of a string, after its opening quote: the decoded characters and the number of
  characters consumed, closing quote included. An escaped high surrogate followed by an
  escaped low surrogate is one character; a surrogate on its own is kept.
\<close>

function scan_string :: "pystr \<Rightarrow> (pystr \<times> nat) option" where
  "scan_string [] = None"
| "scan_string (c # cs) =
     (if c = 34 then Some ([], 1)
      else if c = 92 then
        (case cs of
           [] \<Rightarrow> None
         | e # es \<Rightarrow>
            if e = 117 then
              (case hex4 es of
                 None \<Rightarrow> None
               | Some u \<Rightarrow>
                  if 55296 \<le> u \<and> u \<le> 56319 \<and> startswith (drop 4 es) [92, 117] then
                    (case hex4 (drop 6 es) of
                       None \<Rightarrow> None
                     | Some l \<Rightarrow>
                        if 56320 \<le> l \<and> l \<le> 57343 then
                          map_option (\<lambda>(s, n). ((65536 + (u - 55296) * 1024 + (l - 56320)) # s, n + 12))
                            (scan_string (drop 10 es))
                        else
                          map_option (\<lambda>(s, n). (u # s, n + 6)) (scan_string (drop 4 es)))
                  else map_option (\<lambda>(s, n). (u # s, n + 6)) (scan_string (drop 4 es)))
            else
              (case simple_escape e of
                 None \<Rightarrow> None
               | Some ch \<Rightarrow> map_option (\<lambda>(s, n). (ch # s, n + 2)) (scan_string es)))
      else if c < 32 then None
      else map_option (\<lambda>(s, n). (c # s, n + 1)) (scan_string cs))"
  by pat_completeness auto
termination
  by (relation "measure length") auto

text \<open>The digits of an integer literal, read in base ten.\<close>

definition digits_value :: "pystr \<Rightarrow> int" where
  "digits_value ds = foldl (\<lambda>a d. 10 * a + int (d - 48)) 0 ds"

text \<open>
  A number: an optional minus, \<open>0\<close> or a digit from 1 to 9 and more digits, then a
  fraction (a point and at least one digit) and an exponent (\<open>e\<close> or \<open>E\<close>, an optional
  sign and at least one digit), each read only when complete. With neither it is an int,
  converted by \<open>int\<close> under the limit on its digits; otherwise a float.
\<close>

definition scan_number :: "nat \<Rightarrow> pystr \<Rightarrow> pyerr + (json \<times> nat)" where
  "scan_number max_digits cs =
     (let neg = (case cs of [] \<Rightarrow> 0 | c # _ \<Rightarrow> if c = 45 then 1 else (0::nat));
          r0 = drop neg cs
      in case r0 of
           [] \<Rightarrow> Inl JSONDecodeError
         | c # r1 \<Rightarrow>
            if \<not> is_digit c then Inl JSONDecodeError
            else
              let ilen = (if c = 48 then 1 else 1 + length (takeWhile is_digit r1));
                  r2 = drop ilen r0;
                  flen = (case r2 of
                            [] \<Rightarrow> 0
                          | p # ds \<Rightarrow>
                             if p = 46 \<and> takeWhile is_digit ds \<noteq> []
                             then 1 + length (takeWhile is_digit ds) else 0);
                  r3 = drop flen r2;
                  elen = (case r3 of
                            [] \<Rightarrow> 0
                          | e # es \<Rightarrow>
                             if e = 101 \<or> e = 69 then
                               (let slen = (case es of
                                              [] \<Rightarrow> 0
                                            | s # _ \<Rightarrow> if s = 43 \<or> s = 45 then 1 else (0::nat));
                                    m = length (takeWhile is_digit (drop slen es))
                                in if m = 0 then 0 else 1 + slen + m)
                             else 0);
                  total = neg + ilen + flen + elen
              in if flen = 0 \<and> elen = 0
                 then (if 640 < ilen \<and> 0 < max_digits \<and> max_digits < ilen then Inl ValueError
                       else Inr (JInt ((if neg = 1 then -1 else 1) * digits_value (take ilen r0)),
                                 total))
                 else Inr (JFloat (take total cs), total))"

text \<open>A value that is no string, array or object: a constant or a number.\<close>

definition scan_scalar :: "nat \<Rightarrow> pystr \<Rightarrow> pyerr + (json \<times> nat)" where
  "scan_scalar max_digits cs =
     (if startswith cs (T ''null'') then Inr (JNull, 4)
      else if startswith cs (T ''true'') then Inr (JBool True, 4)
      else if startswith cs (T ''false'') then Inr (JBool False, 5)
      else if startswith cs (T ''NaN'') then Inr (JFloat (T ''NaN''), 3)
      else if startswith cs (T ''Infinity'') then Inr (JFloat (T ''Infinity''), 8)
      else if startswith cs (T ''-Infinity'') then Inr (JFloat (T ''-Infinity''), 9)
      else scan_number max_digits cs)"

lemma drop_Cons_shorter: "drop k xs = y # ys \<Longrightarrow> length ys < length xs"
proof -
  assume "drop k xs = y # ys"
  then have "length (drop k xs) = Suc (length ys)" by simp
  then show ?thesis by simp
qed

text \<open>
  \<open>parse_value md d\<close> reads a value at the head of the input, with \<open>d\<close> levels of
  recursion left and \<open>md\<close> the limit on the digits of an integer. \<open>parse_elems\<close> reads
  the elements of an array from its first value on, \<open>parse_members\<close> the members of an
  object from the opening quote of its first key on; both read the closing bracket too.
\<close>

function parse_value :: "nat \<Rightarrow> nat \<Rightarrow> pystr \<Rightarrow> pyerr + (json \<times> nat)"
  and parse_elems :: "nat \<Rightarrow> nat \<Rightarrow> json list \<Rightarrow> pystr \<Rightarrow> pyerr + (json \<times> nat)"
  and parse_members :: "nat \<Rightarrow> nat \<Rightarrow> (pystr \<times> json) list \<Rightarrow> pystr \<Rightarrow> pyerr + (json \<times> nat)"
where
  "parse_value md d [] = Inl JSONDecodeError"
| "parse_value md d (c # cs) =
     (if c = 34 then
        (case scan_string cs of
           None \<Rightarrow> Inl JSONDecodeError
         | Some (s, n) \<Rightarrow> Inr (JStr s, n + 1))
      else if c = 123 then
        (if d = 0 then Inl RecursionError
         else
           let k = ws_len cs in
           case drop k cs of
             [] \<Rightarrow> Inl JSONDecodeError
           | x # xs \<Rightarrow>
              if x = 125 then Inr (JObj [], k + 2)
              else
                (case parse_members md (d - 1) [] (drop k cs) of
                   Inl e \<Rightarrow> Inl e
                 | Inr (v, n) \<Rightarrow> Inr (v, n + k + 1)))
      else if c = 91 then
        (if d = 0 then Inl RecursionError
         else
           let k = ws_len cs in
           case drop k cs of
             [] \<Rightarrow> Inl JSONDecodeError
           | x # xs \<Rightarrow>
              if x = 93 then Inr (JArr [], k + 2)
              else
                (case parse_elems md (d - 1) [] (drop k cs) of
                   Inl e \<Rightarrow> Inl e
                 | Inr (v, n) \<Rightarrow> Inr (v, n + k + 1)))
      else scan_scalar md (c # cs))"
| "parse_elems md d acc cs =
     (case parse_value md d cs of
        Inl e \<Rightarrow> Inl e
      | Inr (v, n) \<Rightarrow>
         (let k = ws_len (drop n cs) in
          case drop (n + k) cs of
            [] \<Rightarrow> Inl JSONDecodeError
          | x # xs \<Rightarrow>
             if x = 93 then Inr (JArr (acc @ [v]), n + k + 1)
             else if x = 44 then
               (let k2 = ws_len xs in
                case parse_elems md d (acc @ [v]) (drop k2 xs) of
                  Inl e \<Rightarrow> Inl e
                | Inr (r, m) \<Rightarrow> Inr (r, n + k + 1 + k2 + m))
             else Inl JSONDecodeError))"
| "parse_members md d acc [] = Inl JSONDecodeError"
| "parse_members md d acc (c # cs) =
     (if c \<noteq> 34 then Inl JSONDecodeError
      else
        case scan_string cs of
          None \<Rightarrow> Inl JSONDecodeError
        | Some (key, n) \<Rightarrow>
           (let k = ws_len (drop n cs) in
            case drop (n + k) cs of
              [] \<Rightarrow> Inl JSONDecodeError
            | colon # r1 \<Rightarrow>
               if colon \<noteq> 58 then Inl JSONDecodeError
               else
                 (let k1 = ws_len r1 in
                  case parse_value md d (drop k1 r1) of
                    Inl e \<Rightarrow> Inl e
                  | Inr (v, m) \<Rightarrow>
                     (let k2 = ws_len (drop (k1 + m) r1) in
                      case drop (k1 + m + k2) r1 of
                        [] \<Rightarrow> Inl JSONDecodeError
                      | x # xs \<Rightarrow>
                         if x = 125 then
                           Inr (JObj (dict_set acc key v), 1 + n + k + 1 + k1 + m + k2 + 1)
                         else if x = 44 then
                           (let k3 = ws_len xs in
                            case parse_members md d (dict_set acc key v) (drop k3 xs) of
                              Inl e \<Rightarrow> Inl e
                            | Inr (r, j) \<Rightarrow>
                               Inr (r, 1 + n + k + 1 + k1 + m + k2 + 1 + k3 + j))
                         else Inl JSONDecodeError))))"
  by pat_completeness auto
termination
  by (relation "measure (\<lambda>x. case x of
          Inl (md, d, cs) \<Rightarrow> 2 * length cs
        | Inr (Inl (md, d, acc, cs)) \<Rightarrow> 2 * length cs + 1
        | Inr (Inr (md, d, acc, cs)) \<Rightarrow> 2 * length cs + 1)")
     (auto dest!: drop_Cons_shorter)

text \<open>\<open>json.loads(s)\<close>, under the limits of the interpreter.\<close>

definition json_loads :: "py_limits \<Rightarrow> pystr \<Rightarrow> pyerr + json" where
  "json_loads lim s =
     (if startswith s [65279] then Inl JSONDecodeError
      else
        let k = ws_len s in
        case parse_value (int_max_str_digits lim) (recursion_depth lim) (drop k s) of
          Inl e \<Rightarrow> Inl e
        | Inr (v, n) \<Rightarrow>
           if drop (k + n + ws_len (drop (k + n) s)) s = [] then Inr v
           else Inl JSONDecodeError)"

text \<open>The limits of an interpreter started with its defaults, for the examples.\<close>

definition default_limits :: py_limits where
  "default_limits = Limits 1000 4300"


text \<open>
  \<^verbatim>\<open>
  def extract_data_roles(self, config):
      data_roles = []
      try:
          if 'singleVisual' in config:
              single_visual = config['singleVisual']
              if 'query' in single_visual:
                  query = single_visual['query']
                  if 'dataRoles' in query:
                      data_roles = query['dataRoles']
              if 'projections' in single_visual:
                  projections = single_visual['projections']
                  for role_name, fields in projections.items():
                      if isinstance(fields, list):
                          for field in fields:
                              data_roles.append({'role': role_name, 'field': field})
              if 'dataRoles' in single_visual:
                  data_roles.extend(single_visual['dataRoles'])
      except Exception as e:
          data_roles.append({"error": str(e)})
      return data_roles
  \<close>
  Each step of the \<open>try\<close> body takes the current \<open>data_roles\<close> and returns it updated,
  with the exception it raised, if any: the handler needs the value as it was when the
  exception was raised. After \<open>data_roles = query['dataRoles']\<close> the variable is whatever
  the configuration holds there, a list or not. (It is then the same object as the
  configuration's own list, which the appends change too; nothing reads that list again.)
\<close>

definition data_roles_query :: "json \<Rightarrow> json \<Rightarrow> json \<times> pyerr option" where
  "data_roles_query single_visual data_roles =
     (case py_in (T ''query'') single_visual of
        Inl e \<Rightarrow> (data_roles, Some e)
      | Inr False \<Rightarrow> (data_roles, None)
      | Inr True \<Rightarrow>
         (case py_getitem single_visual (T ''query'') of
            Inl e \<Rightarrow> (data_roles, Some e)
          | Inr query \<Rightarrow>
             (case py_in (T ''dataRoles'') query of
                Inl e \<Rightarrow> (data_roles, Some e)
              | Inr False \<Rightarrow> (data_roles, None)
              | Inr True \<Rightarrow>
                 (case py_getitem query (T ''dataRoles'') of
                    Inl e \<Rightarrow> (data_roles, Some e)
                  | Inr v \<Rightarrow> (v, None)))))"

fun append_fields :: "pystr \<Rightarrow> json list \<Rightarrow> json \<Rightarrow> json \<times> pyerr option" where
  "append_fields role_name [] data_roles = (data_roles, None)"
| "append_fields role_name (field # fields) data_roles =
     (case list_append data_roles (JObj [(T ''role'', JStr role_name), (T ''field'', field)]) of
        Inl e \<Rightarrow> (data_roles, Some e)
      | Inr data_roles' \<Rightarrow> append_fields role_name fields data_roles')"

fun append_projections :: "(pystr \<times> json) list \<Rightarrow> json \<Rightarrow> json \<times> pyerr option" where
  "append_projections [] data_roles = (data_roles, None)"
| "append_projections ((role_name, fields) # rest) data_roles =
     (case fields of
        JArr fs \<Rightarrow>
          (case append_fields role_name fs data_roles of
             (data_roles', Some e) \<Rightarrow> (data_roles', Some e)
           | (data_roles', None) \<Rightarrow> append_projections rest data_roles')
      | _ \<Rightarrow> append_projections rest data_roles)"

definition data_roles_projections :: "json \<Rightarrow> json \<Rightarrow> json \<times> pyerr option" where
  "data_roles_projections single_visual data_roles =
     (case py_in (T ''projections'') single_visual of
        Inl e \<Rightarrow> (data_roles, Some e)
      | Inr False \<Rightarrow> (data_roles, None)
      | Inr True \<Rightarrow>
         (case py_getitem single_visual (T ''projections'') of
            Inl e \<Rightarrow> (data_roles, Some e)
          | Inr projections \<Rightarrow>
             (case py_items projections of
                Inl e \<Rightarrow> (data_roles, Some e)
              | Inr kvs \<Rightarrow> append_projections kvs data_roles)))"

definition data_roles_direct :: "json \<Rightarrow> json \<Rightarrow> json \<times> pyerr option" where
  "data_roles_direct single_visual data_roles =
     (case py_in (T ''dataRoles'') single_visual of
        Inl e \<Rightarrow> (data_roles, Some e)
      | Inr False \<Rightarrow> (data_roles, None)
      | Inr True \<Rightarrow>
         (case data_roles of
            JArr xs \<Rightarrow>
              (case py_getitem single_visual (T ''dataRoles'') of
                 Inl e \<Rightarrow> (data_roles, Some e)
               | Inr direct \<Rightarrow>
                  (case list_extend data_roles direct of
                     Inl e \<Rightarrow> (data_roles, Some e)
                   | Inr data_roles' \<Rightarrow> (data_roles', None)))
          | _ \<Rightarrow> (data_roles, Some AttributeError)))"

definition data_roles_body :: "json \<Rightarrow> json \<times> pyerr option" where
  "data_roles_body config =
     (case py_in (T ''singleVisual'') config of
        Inl e \<Rightarrow> (JArr [], Some e)
      | Inr False \<Rightarrow> (JArr [], None)
      | Inr True \<Rightarrow>
         (case py_getitem config (T ''singleVisual'') of
            Inl e \<Rightarrow> (JArr [], Some e)
          | Inr single_visual \<Rightarrow>
             (case data_roles_query single_visual (JArr []) of
                (d1, Some e) \<Rightarrow> (d1, Some e)
              | (d1, None) \<Rightarrow>
                 (case data_roles_projections single_visual d1 of
                    (d2, Some e) \<Rightarrow> (d2, Some e)
                  | (d2, None) \<Rightarrow> data_roles_direct single_visual d2))))"

text \<open>\<open>exc_str\<close> is \<open>str(e)\<close>, the message of the exception, whose wording is the
  interpreter's.\<close>

definition extract_data_roles :: "(pyerr \<Rightarrow> pystr) \<Rightarrow> json \<Rightarrow> pyerr + json" where
  "extract_data_roles exc_str config =
     (case data_roles_body config of
        (data_roles, None) \<Rightarrow> Inr data_roles
      | (data_roles, Some e) \<Rightarrow>
          list_append data_roles (JObj [(T ''error'', JStr (exc_str e))]))"

text \<open>
  \<^verbatim>\<open>
  def extract_visual_properties(self, config):
      properties = {}
      try:
          if 'singleVisual' in config and 'objects' in config['singleVisual']:
              objects = config['singleVisual']['objects']
              for object_name, object_configs in objects.items():
                  properties[object_name] = []
                  if isinstance(object_configs, list):
                      for obj_config in object_configs:
                          if 'properties' in obj_config:
                              properties[object_name].append(obj_config['properties'])
      except Exception as e:
          properties['error'] = str(e)
      return properties
  \<close>
\<close>

fun collect_properties :: "json list \<Rightarrow> json list \<Rightarrow> json list \<times> pyerr option" where
  "collect_properties acc [] = (acc, None)"
| "collect_properties acc (obj_config # rest) =
     (case py_in (T ''properties'') obj_config of
        Inl e \<Rightarrow> (acc, Some e)
      | Inr False \<Rightarrow> collect_properties acc rest
      | Inr True \<Rightarrow>
         (case py_getitem obj_config (T ''properties'') of
            Inl e \<Rightarrow> (acc, Some e)
          | Inr p \<Rightarrow> collect_properties (acc @ [p]) rest))"

fun properties_loop ::
  "(pystr \<times> json) list \<Rightarrow> (pystr \<times> json) list \<Rightarrow> (pystr \<times> json) list \<times> pyerr option" where
  "properties_loop [] properties = (properties, None)"
| "properties_loop ((object_name, object_configs) # rest) properties =
     (case object_configs of
        JArr ocs \<Rightarrow>
          (case collect_properties [] ocs of
             (acc, Some e) \<Rightarrow> (dict_set properties object_name (JArr acc), Some e)
           | (acc, None) \<Rightarrow> properties_loop rest (dict_set properties object_name (JArr acc)))
      | _ \<Rightarrow> properties_loop rest (dict_set properties object_name (JArr [])))"

definition properties_body :: "json \<Rightarrow> (pystr \<times> json) list \<times> pyerr option" where
  "properties_body config =
     (case in_and_in (T ''singleVisual'') (T ''objects'') config of
        Inl e \<Rightarrow> ([], Some e)
      | Inr False \<Rightarrow> ([], None)
      | Inr True \<Rightarrow>
         (case err_bind (py_getitem config (T ''singleVisual''))
                 (\<lambda>sv. err_bind (py_getitem sv (T ''objects'')) py_items) of
            Inl e \<Rightarrow> ([], Some e)
          | Inr kvs \<Rightarrow> properties_loop kvs []))"

definition extract_visual_properties :: "(pyerr \<Rightarrow> pystr) \<Rightarrow> json \<Rightarrow> (pystr \<times> json) list" where
  "extract_visual_properties exc_str config =
     (case properties_body config of
        (properties, None) \<Rightarrow> properties
      | (properties, Some e) \<Rightarrow> dict_set properties (T ''error'') (JStr (exc_str e)))"

text \<open>
  Title-casing as the spec names it, for comparison with what \<open>extract_visual_type\<close>
  returns: Python's \<open>str.title\<close> on ASCII letters, a letter after a letter in lower case
  and every other letter in upper case. It is what the sibling parser of
  \<open>legacy/extract_dax_pbi.py\<close> applies to a code that is no key of its table,
  \<open>VISUAL_TYPE_MAP.get(visual_type, visual_type.title() if visual_type else "Unknown")\<close>;
  \<open>extract_visual_type\<close> does not call it.
\<close>

definition is_upper :: "nat \<Rightarrow> bool" where
  "is_upper c = (65 \<le> c \<and> c \<le> 90)"

definition is_lower :: "nat \<Rightarrow> bool" where
  "is_lower c = (97 \<le> c \<and> c \<le> 122)"

fun title_from :: "bool \<Rightarrow> pystr \<Rightarrow> pystr" where
  "title_from after_letter [] = []"
| "title_from after_letter (c # cs) =
     (if is_upper c then (if after_letter then c + 32 else c) # title_from True cs
      else if is_lower c then (if after_letter then c else c - 32) # title_from True cs
      else c # title_from False cs)"

definition title_case :: "pystr \<Rightarrow> pystr" where
  "title_case s = title_from False s"

text \<open>
  The three shapes of the spec, read off a single-visual object whose shapes are well
  formed: the list under \<open>query.dataRoles\<close>, the \<open>projections\<close> map flattened to one
  binding per field reference, and the list under \<open>dataRoles\<close>. A shape that is absent
  contributes nothing; \<open>None\<close> says that the shape is present and malformed.
\<close>

definition nested_query_roles :: "(pystr \<times> json) list \<Rightarrow> json list option" where
  "nested_query_roles sv =
     (case map_of sv (T ''query'') of
        None \<Rightarrow> Some []
      | Some (JObj q) \<Rightarrow>
          (case map_of q (T ''dataRoles'') of
             None \<Rightarrow> Some []
           | Some (JArr xs) \<Rightarrow> Some xs
           | Some _ \<Rightarrow> None)
      | Some _ \<Rightarrow> None)"

fun flatten_projections :: "(pystr \<times> json) list \<Rightarrow> json list" where
  "flatten_projections [] = []"
| "flatten_projections ((role_name, JArr fs) # rest) =
     map (\<lambda>f. JObj [(T ''role'', JStr role_name), (T ''field'', f)]) fs @ flatten_projections rest"
| "flatten_projections ((role_name, _) # rest) = flatten_projections rest"

definition projection_bindings :: "(pystr \<times> json) list \<Rightarrow> json list option" where
  "projection_bindings sv =
     (case map_of sv (T ''projections'') of
        None \<Rightarrow> Some []
      | Some (JObj p) \<Rightarrow> Some (flatten_projections p)
      | Some _ \<Rightarrow> None)"

definition direct_roles :: "(pystr \<times> json) list \<Rightarrow> json list option" where
  "direct_roles sv =
     (case map_of sv (T ''dataRoles'') of
        None \<Rightarrow> Some []
      | Some (JArr xs) \<Rightarrow> Some xs
      | Some _ \<Rightarrow> None)"


text \<open>\<open>e['expr']['Literal']['Value'].strip("'")\<close>\<close>

definition literal_value :: "json \<Rightarrow> pyerr + pystr" where
  "literal_value e =
     err_bind (py_getitem e (T ''expr'')) (\<lambda>ex.
     err_bind (py_getitem ex (T ''Literal'')) (\<lambda>lit.
     err_bind (py_getitem lit (T ''Value'')) py_strip_quote))"

text \<open>
  \<open>s.lower()\<close>, on the letters A to Z. (Python lowers every cased character; no other
  character becomes one of \<open>t\<close>, \<open>e\<close>, \<open>x\<close> or disappears, so that the one use below,
  \<open>'text' in prop_name.lower()\<close>, has the same value.)
\<close>

definition py_lower :: "pystr \<Rightarrow> pystr" where
  "py_lower s = map (\<lambda>c. if is_upper c then c + 32 else c) s"

text \<open>
  \<^verbatim>\<open>
  def extract_text_content(self, config):
      try:
          if 'singleVisual' in config and 'objects' in config['singleVisual']:
              objects = config['singleVisual']['objects']
              if 'text' in objects:
                  for text_config in objects['text']:
                      if 'properties' in text_config and 'text' in text_config['properties']:
                          text_expr = text_config['properties']['text']
                          if 'expr' in text_expr and 'Literal' in text_expr['expr']:
                              return text_expr['expr']['Literal']['Value'].strip("'")
              for obj_name, obj_configs in objects.items():
                  if isinstance(obj_configs, list):
                      for obj_config in obj_configs:
                          if 'properties' in obj_config:
                              props = obj_config['properties']
                              for prop_name, prop_value in props.items():
                                  if 'text' in prop_name.lower() and isinstance(prop_value, dict):
                                      if 'expr' in prop_value and 'Literal' in prop_value['expr']:
                                          return prop_value['expr']['Literal']['Value'].strip("'")
      except Exception:
          pass
      return None
  \<close>
  A loop returns \<open>Some s\<close> when it has executed \<open>return s\<close>, \<open>None\<close> when it has run
  to its end.
\<close>

fun text_configs_loop :: "json list \<Rightarrow> pyerr + pystr option" where
  "text_configs_loop [] = Inr None"
| "text_configs_loop (text_config # rest) =
     (case in_and_in (T ''properties'') (T ''text'') text_config of
        Inl e \<Rightarrow> Inl e
      | Inr False \<Rightarrow> text_configs_loop rest
      | Inr True \<Rightarrow>
         (case err_bind (py_getitem text_config (T ''properties''))
                 (\<lambda>props. py_getitem props (T ''text'')) of
            Inl e \<Rightarrow> Inl e
          | Inr text_expr \<Rightarrow>
             (case in_and_in (T ''expr'') (T ''Literal'') text_expr of
                Inl e \<Rightarrow> Inl e
              | Inr False \<Rightarrow> text_configs_loop rest
              | Inr True \<Rightarrow>
                 (case literal_value text_expr of
                    Inl e \<Rightarrow> Inl e
                  | Inr s \<Rightarrow> Inr (Some s)))))"

fun props_loop :: "(pystr \<times> json) list \<Rightarrow> pyerr + pystr option" where
  "props_loop [] = Inr None"
| "props_loop ((prop_name, prop_value) # rest) =
     (case prop_value of
        JObj kvs \<Rightarrow>
          if str_contains (py_lower prop_name) (T ''text'') then
            (case in_and_in (T ''expr'') (T ''Literal'') prop_value of
               Inl e \<Rightarrow> Inl e
             | Inr False \<Rightarrow> props_loop rest
             | Inr True \<Rightarrow>
                (case literal_value prop_value of
                   Inl e \<Rightarrow> Inl e
                 | Inr s \<Rightarrow> Inr (Some s)))
          else props_loop rest
      | _ \<Rightarrow> props_loop rest)"

fun obj_configs_loop :: "json list \<Rightarrow> pyerr + pystr option" where
  "obj_configs_loop [] = Inr None"
| "obj_configs_loop (obj_config # rest) =
     (case py_in (T ''properties'') obj_config of
        Inl e \<Rightarrow> Inl e
      | Inr False \<Rightarrow> obj_configs_loop rest
      | Inr True \<Rightarrow>
         (case err_bind (py_getitem obj_config (T ''properties'')) py_items of
            Inl e \<Rightarrow> Inl e
          | Inr props \<Rightarrow>
             (case props_loop props of
                Inl e \<Rightarrow> Inl e
              | Inr (Some s) \<Rightarrow> Inr (Some s)
              | Inr None \<Rightarrow> obj_configs_loop rest)))"

fun objects_loop :: "(pystr \<times> json) list \<Rightarrow> pyerr + pystr option" where
  "objects_loop [] = Inr None"
| "objects_loop ((obj_name, obj_configs) # rest) =
     (case obj_configs of
        JArr ocs \<Rightarrow>
          (case obj_configs_loop ocs of
             Inl e \<Rightarrow> Inl e
           | Inr (Some s) \<Rightarrow> Inr (Some s)
           | Inr None \<Rightarrow> objects_loop rest)
      | _ \<Rightarrow> objects_loop rest)"

definition text_content_body :: "json \<Rightarrow> pyerr + pystr option" where
  "text_content_body config =
     err_bind (in_and_in (T ''singleVisual'') (T ''objects'') config) (\<lambda>p.
       if \<not> p then Inr None
       else
         err_bind (py_getitem config (T ''singleVisual'')) (\<lambda>sv.
         err_bind (py_getitem sv (T ''objects'')) (\<lambda>objects.
         err_bind (py_in (T ''text'') objects) (\<lambda>has_text.
         err_bind (if has_text
                   then err_bind (py_getitem objects (T ''text'')) (\<lambda>ts.
                        err_bind (py_iter ts) text_configs_loop)
                   else Inr None) (\<lambda>r.
           case r of
             Some s \<Rightarrow> Inr (Some s)
           | None \<Rightarrow> err_bind (py_items objects) objects_loop)))))"

definition extract_text_content :: "json \<Rightarrow> pystr option" where
  "extract_text_content config =
     (case text_content_body config of Inl e \<Rightarrow> None | Inr r \<Rightarrow> r)"

text \<open>
  \<^verbatim>\<open>
  def extract_bookmarks_and_actions(self, config):
      actions = {}
      try:
          if 'singleVisual' in config and 'vcObjects' in config['singleVisual']:
              vc_objects = config['singleVisual']['vcObjects']
              if 'visualLink' in vc_objects:
                  for link_config in vc_objects['visualLink']:
                      if 'properties' in link_config:
                          props = link_config['properties']
                          link_type = None
                          bookmark = None
                          if 'type' in props and 'expr' in props['type']:
                              link_type = props['type']['expr']['Literal']['Value'].strip("'")
                          if 'bookmark' in props and 'expr' in props['bookmark']:
                              bookmark = props['bookmark']['expr']['Literal']['Value'].strip("'")
                          actions['link_type'] = link_type
                          actions['bookmark'] = bookmark
      except Exception as e:
          actions['error'] = str(e)
      return actions
  \<close>
\<close>

definition link_literal :: "json \<Rightarrow> pystr \<Rightarrow> pyerr + json" where
  "link_literal props k =
     err_bind (in_and_in k (T ''expr'') props) (\<lambda>p.
       if p then err_bind (py_getitem props k) (\<lambda>e.
                 err_bind (literal_value e) (\<lambda>s. Inr (JStr s)))
       else Inr JNull)"

fun links_loop ::
  "json list \<Rightarrow> (pystr \<times> json) list \<Rightarrow> (pystr \<times> json) list \<times> pyerr option" where
  "links_loop [] actions = (actions, None)"
| "links_loop (link_config # rest) actions =
     (case py_in (T ''properties'') link_config of
        Inl e \<Rightarrow> (actions, Some e)
      | Inr False \<Rightarrow> links_loop rest actions
      | Inr True \<Rightarrow>
         (case py_getitem link_config (T ''properties'') of
            Inl e \<Rightarrow> (actions, Some e)
          | Inr props \<Rightarrow>
             (case link_literal props (T ''type'') of
                Inl e \<Rightarrow> (actions, Some e)
              | Inr link_type \<Rightarrow>
                 (case link_literal props (T ''bookmark'') of
                    Inl e \<Rightarrow> (actions, Some e)
                  | Inr bookmark \<Rightarrow>
                     links_loop rest
                       (dict_set (dict_set actions (T ''link_type'') link_type)
                          (T ''bookmark'') bookmark)))))"

definition actions_body :: "json \<Rightarrow> (pystr \<times> json) list \<times> pyerr option" where
  "actions_body config =
     (case in_and_in (T ''singleVisual'') (T ''vcObjects'') config of
        Inl e \<Rightarrow> ([], Some e)
      | Inr False \<Rightarrow> ([], None)
      | Inr True \<Rightarrow>
         (case err_bind (py_getitem config (T ''singleVisual''))
                 (\<lambda>sv. py_getitem sv (T ''vcObjects'')) of
            Inl e \<Rightarrow> ([], Some e)
          | Inr vc_objects \<Rightarrow>
             (case py_in (T ''visualLink'') vc_objects of
                Inl e \<Rightarrow> ([], Some e)
              | Inr False \<Rightarrow> ([], None)
              | Inr True \<Rightarrow>
                 (case err_bind (py_getitem vc_objects (T ''visualLink'')) py_iter of
                    Inl e \<Rightarrow> ([], Some e)
                  | Inr links \<Rightarrow> links_loop links []))))"

definition extract_bookmarks_and_actions ::
  "(pyerr \<Rightarrow> pystr) \<Rightarrow> json \<Rightarrow> (pystr \<times> json) list" where
  "extract_bookmarks_and_actions exc_str config =
     (case actions_body config of
        (actions, None) \<Rightarrow> actions
      | (actions, Some e) \<Rightarrow> dict_set actions (T ''error'') (JStr (exc_str e)))"

text \<open>
  \<^verbatim>\<open>
  def parse_visual_config(self, config_str):
      try:
          if config_str.startswith('{'):
              config = json.loads(config_str)
          else:
              config = json.loads(config_str.strip('"'))
      except (json.JSONDecodeError, ValueError):
          return {"error": "Failed to parse config", "raw": config_str[:200]}
      return config
  \<close>
  \<open>config_text\<close> is the text handed to \<open>json.loads\<close>. The handler catches
  JSONDecodeError and ValueError; a RecursionError leaves the function. A \<open>config_str\<close>
  that is no string has no \<open>startswith\<close>: the AttributeError is not caught either.
\<close>

definition config_text :: "pystr \<Rightarrow> pystr" where
  "config_text config_str =
     (if startswith config_str (T ''{'') then config_str else strip_char 34 config_str)"

fun parse_visual_config :: "py_limits \<Rightarrow> json \<Rightarrow> pyerr + json" where
  "parse_visual_config lim (JStr config_str) =
     (case json_loads lim (config_text config_str) of
        Inr config \<Rightarrow> Inr config
      | Inl e \<Rightarrow>
         if e = JSONDecodeError \<or> e = ValueError
         then Inr (JObj [(T ''error'', JStr (T ''Failed to parse config'')),
                         (T ''raw'', JStr (take 200 config_str))])
         else Inl e)"
| "parse_visual_config lim _ = Inl AttributeError"

text \<open>
  \<open>round(v, 1)\<close>: an int (or a bool, which is an int) is returned as an int; a float is
  rounded to one decimal, kept here as the literal it was read from under \<open>RFloat1\<close>;
  anything else raises TypeError. \<open>len(config_str)\<close>.
\<close>

datatype rounded = RInt int | RFloat1 pystr

fun py_round1 :: "json \<Rightarrow> pyerr + rounded" where
  "py_round1 (JInt i) = Inr (RInt i)"
| "py_round1 (JBool b) = Inr (RInt (if b then 1 else 0))"
| "py_round1 (JFloat f) = Inr (RFloat1 f)"
| "py_round1 _ = Inl TypeError"

fun py_len :: "json \<Rightarrow> pyerr + nat" where
  "py_len (JStr s) = Inr (length s)"
| "py_len (JArr xs) = Inr (length xs)"
| "py_len (JObj kvs) = Inr (length kvs)"
| "py_len _ = Inl TypeError"

text \<open>
  \<^verbatim>\<open>
  def _enhance_visual_data(self, visual, page_name):
      config_str = visual.get("properties", "{}")
      config = self.parse_visual_config(config_str)
      enhanced_visual = {
          "id": visual.get("id"),
          "page_name": page_name,
          "enhanced_type": self.extract_visual_type(config),
          "original_type": visual.get("type", "unknown"),
          "position": {
              "x": round(visual.get("x", 0), 1),
              "y": round(visual.get("y", 0), 1),
              "width": round(visual.get("width", 0), 1),
              "height": round(visual.get("height", 0), 1),
              "z_order": visual.get("z_order", 0)
          },
          "data_roles": self.extract_data_roles(config),
          "properties": self.extract_visual_properties(config),
          "text_content": self.extract_text_content(config),
          "actions": self.extract_bookmarks_and_actions(config),
          "config_size": len(config_str)
      }
      return enhanced_visual
  \<close>
\<close>

record position =
  pos_x :: rounded
  pos_y :: rounded
  pos_width :: rounded
  pos_height :: rounded
  pos_z_order :: json

record enhanced_visual =
  ev_id :: json
  ev_page_name :: json
  ev_enhanced_type :: json
  ev_original_type :: json
  ev_position :: position
  ev_data_roles :: json
  ev_properties :: "(pystr \<times> json) list"
  ev_text_content :: "pystr option"
  ev_actions :: "(pystr \<times> json) list"
  ev_config_size :: nat

definition rounded_field :: "json \<Rightarrow> pystr \<Rightarrow> pyerr + rounded" where
  "rounded_field visual k = err_bind (py_get visual k (JInt 0)) py_round1"

definition enhance_visual_data ::
  "py_limits \<Rightarrow> (pyerr \<Rightarrow> pystr) \<Rightarrow> json \<Rightarrow> json \<Rightarrow> pyerr + enhanced_visual" where
  "enhance_visual_data lim exc_str visual page =
     err_bind (py_get visual (T ''properties'') (JStr (T ''{}''))) (\<lambda>config_str.
     err_bind (parse_visual_config lim config_str) (\<lambda>config.
     err_bind (py_get visual (T ''id'') JNull) (\<lambda>ident.
     err_bind (extract_visual_type config) (\<lambda>etype.
     err_bind (py_get visual (T ''type'') (JStr (T ''unknown''))) (\<lambda>otype.
     err_bind (rounded_field visual (T ''x'')) (\<lambda>x.
     err_bind (rounded_field visual (T ''y'')) (\<lambda>y.
     err_bind (rounded_field visual (T ''width'')) (\<lambda>w.
     err_bind (rounded_field visual (T ''height'')) (\<lambda>h.
     err_bind (py_get visual (T ''z_order'') (JInt 0)) (\<lambda>z.
     err_bind (extract_data_roles exc_str config) (\<lambda>roles.
     err_bind (py_len config_str) (\<lambda>size.
       Inr \<lparr> ev_id = ident, ev_page_name = page, ev_enhanced_type = etype,
             ev_original_type = otype,
             ev_position = \<lparr> pos_x = x, pos_y = y, pos_width = w, pos_height = h, pos_z_order = z \<rparr>,
             ev_data_roles = roles,
             ev_properties = extract_visual_properties exc_str config,
             ev_text_content = extract_text_content config,
             ev_actions = extract_bookmarks_and_actions exc_str config,
             ev_config_size = size \<rparr>))))))))))))"

text \<open>The geometry the rounding accepts: each of x, y, width and height absent or a
  number.\<close>

definition roundable :: "(pystr \<times> json) list \<Rightarrow> pystr \<Rightarrow> bool" where
  "roundable v k =
     (case map_of v k of
        None \<Rightarrow> True
      | Some (JInt i) \<Rightarrow> True
      | Some (JBool b) \<Rightarrow> True
      | Some (JFloat f) \<Rightarrow> True
      | Some _ \<Rightarrow> False)"

definition geometry_ok :: "(pystr \<times> json) list \<Rightarrow> bool" where
  "geometry_ok v =
     (roundable v (T ''x'') \<and> roundable v (T ''y'') \<and>
      roundable v (T ''width'') \<and> roundable v (T ''height''))"


section \<open>setup\_powerbi\_mcp\_db.py: the page--visual resolver\<close>

text \<open>
  \<open>str(v)\<close> for a value read from JSON. A string is itself, \<open>None\<close> and the bools print
  their names, an int prints in decimal. The text of a float, a list or a dict is the
  interpreter's \<open>repr\<close>; it is left to the parameter \<open>repr_other\<close>.
\<close>

function nat_digits :: "nat \<Rightarrow> pystr" where
  "nat_digits n = (if n < 10 then [48 + n] else nat_digits (n div 10) @ [48 + n mod 10])"
  by pat_completeness auto
termination
  by (relation "measure id") auto

definition int_str :: "int \<Rightarrow> pystr" where
  "int_str i = (if i < 0 then 45 # nat_digits (nat (- i)) else nat_digits (nat i))"

fun py_str :: "(json \<Rightarrow> pystr) \<Rightarrow> json \<Rightarrow> pystr" where
  "py_str repr_other (JStr s) = s"
| "py_str repr_other JNull = T ''None''"
| "py_str repr_other (JBool b) = (if b then T ''True'' else T ''False'')"
| "py_str repr_other (JInt i) = int_str i"
| "py_str repr_other v = repr_other v"

text \<open>
  \<^verbatim>\<open>
  def extract_page_from_visual(visual, pages):
      visual_id = str(visual.get('id', ''))
      for page in pages:
          raw_data = page.get('raw_data', {})
          visual_containers = raw_data.get('visualContainers', [])
          for container in visual_containers:
              if str(container.get('id', '')) == visual_id:
                  return page['name']
      path = visual.get('path', '')
      if 'sections[0]' in path:
          return pages[0]['name'] if pages else 'Unknown'
      elif 'sections[1]' in path and len(pages) > 1:
          return pages[1]['name']
      elif 'sections[2]' in path and len(pages) > 2:
          return pages[2]['name']
      elif 'sections[3]' in path and len(pages) > 3:
          return pages[3]['name']
      return pages[0]['name'] if pages else 'Unknown'
  \<close>
  \<open>pages\<close> is a list. The inner loop says whether a container matched; the outer loop
  returns \<open>Some name\<close> when it has executed \<open>return page['name']\<close>.
\<close>

fun containers_loop :: "(json \<Rightarrow> pystr) \<Rightarrow> pystr \<Rightarrow> json list \<Rightarrow> pyerr + bool" where
  "containers_loop repr_other visual_id [] = Inr False"
| "containers_loop repr_other visual_id (container # rest) =
     (case py_get container (T ''id'') (JStr []) of
        Inl e \<Rightarrow> Inl e
      | Inr i \<Rightarrow>
         if py_str repr_other i = visual_id then Inr True
         else containers_loop repr_other visual_id rest)"

fun pages_loop :: "(json \<Rightarrow> pystr) \<Rightarrow> pystr \<Rightarrow> json list \<Rightarrow> pyerr + json option" where
  "pages_loop repr_other visual_id [] = Inr None"
| "pages_loop repr_other visual_id (page # rest) =
     (case err_bind (py_get page (T ''raw_data'') (JObj [])) (\<lambda>raw_data.
           err_bind (py_get raw_data (T ''visualContainers'') (JArr [])) (\<lambda>visual_containers.
           err_bind (py_iter visual_containers) (containers_loop repr_other visual_id))) of
        Inl e \<Rightarrow> Inl e
      | Inr True \<Rightarrow> err_bind (py_getitem page (T ''name'')) (\<lambda>n. Inr (Some n))
      | Inr False \<Rightarrow> pages_loop repr_other visual_id rest)"

text \<open>\<open>pages[0]['name'] if pages else 'Unknown'\<close>\<close>

fun first_page_or_unknown :: "json list \<Rightarrow> pyerr + json" where
  "first_page_or_unknown [] = Inr (JStr (T ''Unknown''))"
| "first_page_or_unknown (page # rest) = py_getitem page (T ''name'')"

definition extract_page_from_visual ::
  "(json \<Rightarrow> pystr) \<Rightarrow> json \<Rightarrow> json list \<Rightarrow> pyerr + json" where
  "extract_page_from_visual repr_other visual pages =
     err_bind (py_get visual (T ''id'') (JStr [])) (\<lambda>i.
     err_bind (pages_loop repr_other (py_str repr_other i) pages) (\<lambda>found.
       case found of
         Some name \<Rightarrow> Inr name
       | None \<Rightarrow>
          err_bind (py_get visual (T ''path'') (JStr [])) (\<lambda>path.
          err_bind (py_in (T ''sections[0]'') path) (\<lambda>s0.
            if s0 then first_page_or_unknown pages
            else
              err_bind (py_in (T ''sections[1]'') path) (\<lambda>s1.
                if s1 \<and> length pages > 1 then py_getitem (pages ! 1) (T ''name'')
                else
                  err_bind (py_in (T ''sections[2]'') path) (\<lambda>s2.
                    if s2 \<and> length pages > 2 then py_getitem (pages ! 2) (T ''name'')
                    else
                      err_bind (py_in (T ''sections[3]'') path) (\<lambda>s3.
                        if s3 \<and> length pages > 3 then py_getitem (pages ! 3) (T ''name'')
                        else first_page_or_unknown pages)))))))"

text \<open>
  What the spec's resolver speaks of, for well-formed input. A page is well formed when
  it is an object with a name whose raw data, when present, is an object whose
  visual-container list, when present, is a list of objects. Its container ids are the
  ids of these objects as \<open>str\<close> prints them, an absent id being the empty string. The
  index marker of the N-th section is the text \<open>sections[N]\<close>.
\<close>

definition is_obj :: "json \<Rightarrow> bool" where
  "is_obj v = (case v of JObj kvs \<Rightarrow> True | _ \<Rightarrow> False)"

definition page_containers :: "json \<Rightarrow> json list option" where
  "page_containers page =
     (case page of
        JObj p \<Rightarrow>
          (case map_of p (T ''raw_data'') of
             None \<Rightarrow> Some []
           | Some (JObj r) \<Rightarrow>
               (case map_of r (T ''visualContainers'') of
                  None \<Rightarrow> Some []
                | Some (JArr cs) \<Rightarrow> if list_all is_obj cs then Some cs else None
                | Some _ \<Rightarrow> None)
           | Some _ \<Rightarrow> None)
      | _ \<Rightarrow> None)"

definition page_name_of :: "json \<Rightarrow> json option" where
  "page_name_of page = (case page of JObj p \<Rightarrow> map_of p (T ''name'') | _ \<Rightarrow> None)"

definition wf_page :: "json \<Rightarrow> bool" where
  "wf_page page = (page_containers page \<noteq> None \<and> page_name_of page \<noteq> None)"

definition container_id :: "(json \<Rightarrow> pystr) \<Rightarrow> json \<Rightarrow> pystr" where
  "container_id repr_other c =
     (case c of
        JObj kvs \<Rightarrow> py_str repr_other (case map_of kvs (T ''id'') of None \<Rightarrow> JStr [] | Some i \<Rightarrow> i)
      | _ \<Rightarrow> [])"

definition page_has_id :: "(json \<Rightarrow> pystr) \<Rightarrow> pystr \<Rightarrow> json \<Rightarrow> bool" where
  "page_has_id repr_other visual_id page =
     (case page_containers page of
        None \<Rightarrow> False
      | Some cs \<Rightarrow> visual_id \<in> set (map (container_id repr_other) cs))"

definition section_marker :: "nat \<Rightarrow> pystr" where
  "section_marker n = T ''sections['' @ nat_digits n @ T '']''"

definition visual_id_str :: "(json \<Rightarrow> pystr) \<Rightarrow> (pystr \<times> json) list \<Rightarrow> pystr" where
  "visual_id_str repr_other v =
     py_str repr_other (case map_of v (T ''id'') of None \<Rightarrow> JStr [] | Some i \<Rightarrow> i)"

definition visual_path :: "(pystr \<times> json) list \<Rightarrow> pystr option" where
  "visual_path v =
     (case map_of v (T ''path'') of
        None \<Rightarrow> Some []
      | Some (JStr s) \<Rightarrow> Some s
      | Some _ \<Rightarrow> None)"

text \<open>The lowest N among 0, 1, 2, 3 whose marker occurs in the path.\<close>

definition least_marker :: "pystr \<Rightarrow> nat option" where
  "least_marker path = find (\<lambda>n. str_contains path (section_marker n)) [0, 1, 2, 3]"

text \<open>A page that has only a name, for the examples.\<close>

definition named_page :: "string \<Rightarrow> json" where
  "named_page n = JObj [(T ''name'', JStr (T n))]"


section \<open>extract\_pbix\_ui.py: decoding and parsing a layout member\<close>

text \<open>
  A byte payload is a list of 8-bit words. \<open>content.decode('utf-16le')\<close> reads two bytes
  at a time, low byte first; a high surrogate must be followed by a low surrogate, which
  the two make into one character; a low surrogate on its own, a high surrogate without
  its partner and an odd byte at the end raise UnicodeDecodeError, here \<open>None\<close>.
\<close>

type_synonym byte = "8 word"

fun utf16le_decode :: "byte list \<Rightarrow> pystr option" where
  "utf16le_decode [] = Some []"
| "utf16le_decode [b] = None"
| "utf16le_decode (lo # hi # rest) =
     (let u = unat lo + 256 * unat hi in
      if u < 55296 \<or> 57343 < u then map_option ((#) u) (utf16le_decode rest)
      else if u \<le> 56319 then
        (case rest of
           lo2 # hi2 # rest2 \<Rightarrow>
             (let u2 = unat lo2 + 256 * unat hi2 in
              if 56320 \<le> u2 \<and> u2 \<le> 57343
              then map_option ((#) (65536 + (u - 55296) * 1024 + (u2 - 56320)))
                     (utf16le_decode rest2)
              else None)
         | _ \<Rightarrow> None)
      else None)"

text \<open>
  One step of the UTF-8 decoder at a lead byte \<open>b\<close> followed by \<open>bs\<close>: a character and
  the number of bytes it took, or an invalid sequence and the number of bytes the error
  covers (the lead byte alone for an invalid start and for a bad second byte, the bytes
  read so far for a bad third or fourth byte), or a sequence cut off by the end of the
  input, where the error covers all that is left. Overlong forms, surrogates and code
  points beyond U+10FFFF are invalid.
\<close>

datatype utf8_result = Decoded nat nat | Invalid nat | Truncated

definition is_cont :: "nat \<Rightarrow> bool" where
  "is_cont c = (128 \<le> c \<and> c < 192)"

definition utf8_step :: "byte \<Rightarrow> byte list \<Rightarrow> utf8_result" where
  "utf8_step b bs =
     (let c = unat b; t = map unat bs in
      if c < 128 then Decoded c 1
      else if c < 194 then Invalid 1
      else if c < 224 then
        (case t of
           [] \<Rightarrow> Truncated
         | c2 # _ \<Rightarrow> if is_cont c2 then Decoded ((c - 192) * 64 + (c2 - 128)) 2 else Invalid 1)
      else if c < 240 then
        (case t of
           [] \<Rightarrow> Truncated
         | c2 # t2 \<Rightarrow>
            if \<not> is_cont c2 \<or> (if c2 < 160 then c = 224 else c = 237) then Invalid 1
            else
              (case t2 of
                 [] \<Rightarrow> Truncated
               | c3 # _ \<Rightarrow>
                  if is_cont c3
                  then Decoded ((c - 224) * 4096 + (c2 - 128) * 64 + (c3 - 128)) 3
                  else Invalid 2))
      else if c < 245 then
        (case t of
           [] \<Rightarrow> Truncated
         | c2 # t2 \<Rightarrow>
            if \<not> is_cont c2 \<or> (if c2 < 144 then c = 240 else c = 244) then Invalid 1
            else
              (case t2 of
                 [] \<Rightarrow> Truncated
               | c3 # t3 \<Rightarrow>
                  if \<not> is_cont c3 then Invalid 2
                  else
                    (case t3 of
                       [] \<Rightarrow> Truncated
                     | c4 # _ \<Rightarrow>
                        if is_cont c4
                        then Decoded ((c - 240) * 262144 + (c2 - 128) * 4096
                                      + (c3 - 128) * 64 + (c4 - 128)) 4
                        else Invalid 3)))
      else Invalid 1)"

text \<open>\<open>content.decode('utf-8')\<close>: the first error raises UnicodeDecodeError.\<close>

function utf8_decode :: "byte list \<Rightarrow> pystr option" where
  "utf8_decode [] = Some []"
| "utf8_decode (b # bs) =
     (case utf8_step b bs of
        Decoded cp n \<Rightarrow> map_option ((#) cp) (utf8_decode (drop (n - 1) bs))
      | Invalid k \<Rightarrow> None
      | Truncated \<Rightarrow> None)"
  by pat_completeness auto
termination
  by (relation "measure length") auto

text \<open>\<open>content.decode('utf-8', errors='ignore')\<close>: the bytes an error covers are
  skipped, and nothing is put in their place.\<close>

function utf8_decode_ignore :: "byte list \<Rightarrow> pystr" where
  "utf8_decode_ignore [] = []"
| "utf8_decode_ignore (b # bs) =
     (case utf8_step b bs of
        Decoded cp n \<Rightarrow> cp # utf8_decode_ignore (drop (n - 1) bs)
      | Invalid k \<Rightarrow> utf8_decode_ignore (drop (k - 1) bs)
      | Truncated \<Rightarrow> [])"
  by pat_completeness auto
termination
  by (relation "measure length") auto

text \<open>
  \<^verbatim>\<open>
  try:
      text_content = content.decode('utf-16le')
  except UnicodeDecodeError:
      try:
          text_content = content.decode('utf-8')
      except UnicodeDecodeError:
          text_content = content.decode('utf-8', errors='ignore')
  \<close>
\<close>

definition decode_content :: "byte list \<Rightarrow> pystr" where
  "decode_content content =
     (case utf16le_decode content of
        Some t \<Rightarrow> t
      | None \<Rightarrow>
         (case utf8_decode content of
            Some t \<Rightarrow> t
          | None \<Rightarrow> utf8_decode_ignore content))"

text \<open>\<open>s.strip()\<close> removes the characters \<open>str.isspace\<close> accepts from both ends.\<close>

definition py_isspace :: "nat \<Rightarrow> bool" where
  "py_isspace c =
     ((9 \<le> c \<and> c \<le> 13) \<or> (28 \<le> c \<and> c \<le> 32) \<or> c = 133 \<or> c = 160 \<or> c = 5760 \<or>
      (8192 \<le> c \<and> c \<le> 8202) \<or> c = 8232 \<or> c = 8233 \<or> c = 8239 \<or> c = 8287 \<or>
      c = 12288)"

definition py_strip :: "pystr \<Rightarrow> pystr" where
  "py_strip s = rev (dropWhile py_isspace (rev (dropWhile py_isspace s)))"

text \<open>
  \<^verbatim>\<open>
  try:
      ...
      if text_content.strip():
          try:
              return json.loads(text_content)
          except json.JSONDecodeError as e:
              print(f"JSON decode error in {file_path}: {e}")
              return {"raw_content": text_content[:1000] + "..."
                                     if len(text_content) > 1000 else text_content}
  except Exception as e:
      print(f"Error reading {file_path}: {e}")
  return None
  \<close>
  \<open>None\<close> is the function returning \<open>None\<close>, after which the caller drops the member;
  the document \<open>null\<close>, which \<open>json.loads\<close> reads as \<open>None\<close>, is returned as such.
\<close>

definition raw_content :: "pystr \<Rightarrow> pystr" where
  "raw_content text_content =
     (if length text_content > 1000 then take 1000 text_content @ T ''...'' else text_content)"

definition parse_layout_text :: "py_limits \<Rightarrow> pystr \<Rightarrow> json option" where
  "parse_layout_text lim text_content =
     (if py_strip text_content \<noteq> [] then
        (case json_loads lim text_content of
           Inr v \<Rightarrow> if v = JNull then None else Some v
         | Inl e \<Rightarrow>
            if e = JSONDecodeError
            then Some (JObj [(T ''raw_content'', JStr (raw_content text_content))])
            else None)
      else None)"

text \<open>
  \<open>_extract_layout_file\<close>: the member's bytes, or \<open>None\<close> when the archive cannot give
  them. Whatever is raised inside, but the JSONDecodeError caught above, reaches the outer
  \<open>except Exception\<close>, and the function returns \<open>None\<close>.
\<close>

definition extract_layout_file :: "py_limits \<Rightarrow> byte list option \<Rightarrow> json option" where
  "extract_layout_file lim member =
     (case member of
        None \<Rightarrow> None
      | Some content \<Rightarrow> parse_layout_text lim (decode_content content))"

text \<open>
  The encoder of UTF-16LE, for comparison: a payload is valid UTF-16LE when it encodes a
  text of Unicode scalar values (code points up to U+10FFFF that are no surrogates).
\<close>

definition scalar_value :: "nat \<Rightarrow> bool" where
  "scalar_value cp = (cp < 55296 \<or> (57343 < cp \<and> cp \<le> 1114111))"

definition unit_bytes :: "nat \<Rightarrow> byte list" where
  "unit_bytes u = [of_nat (u mod 256), of_nat (u div 256)]"

fun utf16le_encode :: "pystr \<Rightarrow> byte list" where
  "utf16le_encode [] = []"
| "utf16le_encode (cp # rest) =
     (if cp < 65536 then unit_bytes cp
      else unit_bytes (55296 + (cp - 65536) div 1024) @ unit_bytes (56320 + (cp - 65536) mod 1024))
     @ utf16le_encode rest"


section \<open>Properties\<close>

lemma T_eq_iff [simp]: "T a = T b \<longleftrightarrow> a = b"
  by (simp add: T_def inj_map_eq_map inj_of_char)

lemma err_bind_simps [simp]:
  "err_bind (Inl e) f = Inl e"
  "err_bind (Inr x) f = f x"
  by (simp_all add: err_bind_def)

lemma startswith_iff: "startswith hay needle \<longleftrightarrow> (\<exists>s. hay = needle @ s)"
  by (induction hay needle rule: startswith.induct) auto

lemma str_contains_iff: "str_contains hay needle \<longleftrightarrow> (\<exists>p s. hay = p @ needle @ s)"
proof (induction hay)
  case Nil
  then show ?case by auto
next
  case (Cons h hs)
  show ?case
  proof
    assume "str_contains (h # hs) needle"
    then consider "startswith (h # hs) needle" | "str_contains hs needle" by auto
    then show "\<exists>p s. h # hs = p @ needle @ s"
    proof cases
      case 1
      then obtain s where "h # hs = needle @ s" by (auto simp: startswith_iff)
      then have "h # hs = [] @ needle @ s" by simp
      then show ?thesis by blast
    next
      case 2
      then obtain p s where "hs = p @ needle @ s" using Cons.IH by auto
      then have "h # hs = (h # p) @ needle @ s" by simp
      then show ?thesis by blast
    qed
  next
    assume "\<exists>p s. h # hs = p @ needle @ s"
    then obtain p s where ps: "h # hs = p @ needle @ s" by blast
    show "str_contains (h # hs) needle"
    proof (cases p)
      case Nil
      then have "startswith (h # hs) needle" using ps by (auto simp: startswith_iff)
      then show ?thesis by simp
    next
      case (Cons a p')
      then have "hs = p' @ needle @ s" using ps by simp
      then have "str_contains hs needle" using Cons.IH by blast
      then show ?thesis by simp
    qed
  qed
qed

text \<open>
  C10. The source-type classifier is total on strings and returns one of the six labels;
  when several markers occur, the earliest in the order Excel.Workbook,
  AzureStorage.BlobContents, Table.FromRows, Sql.Database, Web.Contents decides.
\<close>

theorem extract_source_type_priority:
  "extract_source_type m \<in> set source_labels \<and>
   (str_contains m (T ''Excel.Workbook'') \<longrightarrow> extract_source_type m = T ''Excel'') \<and>
   (\<not> str_contains m (T ''Excel.Workbook'') \<and> str_contains m (T ''AzureStorage.BlobContents'')
      \<longrightarrow> extract_source_type m = T ''Azure Blob Storage'') \<and>
   (\<not> str_contains m (T ''Excel.Workbook'') \<and> \<not> str_contains m (T ''AzureStorage.BlobContents'')
      \<and> str_contains m (T ''Table.FromRows'')
      \<longrightarrow> extract_source_type m = T ''Embedded Table'') \<and>
   (\<not> str_contains m (T ''Excel.Workbook'') \<and> \<not> str_contains m (T ''AzureStorage.BlobContents'')
      \<and> \<not> str_contains m (T ''Table.FromRows'') \<and> str_contains m (T ''Sql.Database'')
      \<longrightarrow> extract_source_type m = T ''SQL Database'') \<and>
   (\<not> str_contains m (T ''Excel.Workbook'') \<and> \<not> str_contains m (T ''AzureStorage.BlobContents'')
      \<and> \<not> str_contains m (T ''Table.FromRows'') \<and> \<not> str_contains m (T ''Sql.Database'')
      \<and> str_contains m (T ''Web.Contents'')
      \<longrightarrow> extract_source_type m = T ''Web Source'') \<and>
   (\<not> str_contains m (T ''Excel.Workbook'') \<and> \<not> str_contains m (T ''AzureStorage.BlobContents'')
      \<and> \<not> str_contains m (T ''Table.FromRows'') \<and> \<not> str_contains m (T ''Sql.Database'')
      \<and> \<not> str_contains m (T ''Web.Contents'')
      \<longrightarrow> extract_source_type m = T ''Other'')"
  unfolding extract_source_type_def source_labels_def by simp

theorem extract_source_type_priority_witness:
  "str_contains (T ''Sql.Database(Excel.Workbook)'') (T ''Excel.Workbook'') \<and>
   str_contains (T ''Sql.Database(Excel.Workbook)'') (T ''Sql.Database'') \<and>
   extract_source_type (T ''Sql.Database(Excel.Workbook)'') = T ''Excel''"
proof -
  have h: "str_contains (T ''Sql.Database(Excel.Workbook)'') (T ''Excel.Workbook'')"
    by (simp add: T_def)
  have h2: "str_contains (T ''Sql.Database(Excel.Workbook)'') (T ''Sql.Database'')"
    by (simp add: T_def)
  from h h2 extract_source_type_priority [of "T ''Sql.Database(Excel.Workbook)''"]
  show ?thesis by blast
qed

lemma extract_visual_type_nested:
  assumes "map_of c (T ''singleVisual'') = Some (JObj sv)"
    and "map_of sv (T ''visualType'') = Some v"
  shows "extract_visual_type (JObj c) = visual_type_lookup v"
  using assms by (simp add: extract_visual_type_def in_and_in_def)

text \<open>
  What \<open>extract_visual_type\<close> returns for a configuration that carries a raw
  visual-type code under the nested single-visual object: the name the static table gives
  the code (\<open>barChart\<close> becomes \<open>Bar Chart\<close>), and the code itself when it is no key of
  the table.
\<close>

lemma extract_visual_type_table_or_unchanged:
  assumes "map_of c (T ''singleVisual'') = Some (JObj sv)"
    and "map_of sv (T ''visualType'') = Some (JStr code)"
  shows "extract_visual_type (JObj c) =
           Inr (JStr (case map_of VISUAL_TYPE_MAP code of None \<Rightarrow> code | Some name \<Rightarrow> name))
         \<and> map_of VISUAL_TYPE_MAP (T ''barChart'') = Some (T ''Bar Chart'')"
proof
  show "extract_visual_type (JObj c) =
           Inr (JStr (case map_of VISUAL_TYPE_MAP code of None \<Rightarrow> code | Some name \<Rightarrow> name))"
    using extract_visual_type_nested [OF assms] by (simp split: option.split)
  show "map_of VISUAL_TYPE_MAP (T ''barChart'') = Some (T ''Bar Chart'')"
    by (simp add: VISUAL_TYPE_MAP_def)
qed

lemma extract_visual_type_bar_chart:
  "extract_visual_type
     (JObj [(T ''singleVisual'', JObj [(T ''visualType'', JStr (T ''barChart''))])])
   = Inr (JStr (T ''Bar Chart''))"
  using extract_visual_type_table_or_unchanged
    [of "[(T ''singleVisual'', JObj [(T ''visualType'', JStr (T ''barChart''))])]"
        "[(T ''visualType'', JStr (T ''barChart''))]" "T ''barChart''"]
  by simp

text \<open>
  C4. The claim holds for the codes of the table (above). For a code that is no key of
  the table the spec asks for the code title-cased, which is what the sibling parser of
  \<open>legacy/extract_dax_pbi.py\<close> returns; \<open>extract_visual_type\<close> returns the code
  unchanged. At the code \<open>pivotTable\<close>, which the table does not hold, it returns
  \<open>pivotTable\<close> where the title-cased code is \<open>Pivottable\<close>.
\<close>

theorem extract_visual_type_not_title_cased:
  "extract_visual_type
     (JObj [(T ''singleVisual'', JObj [(T ''visualType'', JStr (T ''pivotTable''))])])
   = Inr (JStr (T ''pivotTable'')) \<and>
   map_of VISUAL_TYPE_MAP (T ''pivotTable'') = None \<and>
   title_case (T ''pivotTable'') = T ''Pivottable'' \<and>
   T ''pivotTable'' \<noteq> title_case (T ''pivotTable'')"
proof -
  have t: "title_case (T ''pivotTable'') = T ''Pivottable''"
    by (simp add: title_case_def T_def is_upper_def is_lower_def)
  have m: "map_of VISUAL_TYPE_MAP (T ''pivotTable'') = None"
    by (simp add: VISUAL_TYPE_MAP_def)
  show ?thesis
    by (simp add: t m extract_visual_type_def in_and_in_def)
qed

lemma append_fields_list:
  "append_fields r fs (JArr xs) =
     (JArr (xs @ map (\<lambda>f. JObj [(T ''role'', JStr r), (T ''field'', f)]) fs), None)"
  by (induction fs arbitrary: xs) simp_all

lemma append_projections_list:
  "append_projections kvs (JArr xs) = (JArr (xs @ flatten_projections kvs), None)"
proof (induction kvs arbitrary: xs rule: flatten_projections.induct)
  case 1
  then show ?case by simp
next
  case (2 role_name fs rest)
  then show ?case by (simp add: append_fields_list)
qed simp_all

lemma data_roles_query_wf:
  assumes "nested_query_roles sv = Some q"
  shows "data_roles_query (JObj sv) (JArr []) = (JArr q, None)"
  using assms
  by (auto simp: nested_query_roles_def data_roles_query_def
           split: option.splits json.splits)

lemma data_roles_projections_wf:
  assumes "projection_bindings sv = Some p"
  shows "data_roles_projections (JObj sv) (JArr xs) = (JArr (xs @ p), None)"
  using assms
  by (auto simp: projection_bindings_def data_roles_projections_def append_projections_list
           split: option.splits json.splits)

lemma data_roles_direct_wf:
  assumes "direct_roles sv = Some d"
  shows "data_roles_direct (JObj sv) (JArr xs) = (JArr (xs @ d), None)"
  using assms
  by (auto simp: direct_roles_def data_roles_direct_def
           split: option.splits json.splits)

lemma data_roles_projections_not_a_map:
  assumes "map_of sv (T ''projections'') = Some p" and "\<not> is_obj p"
  shows "data_roles_projections (JObj sv) d = (d, Some AttributeError)"
  using assms
  by (cases p) (simp_all add: data_roles_projections_def is_obj_def)

text \<open>
  C8 (as amended). For a configuration whose single-visual object carries well-formed
  shapes (a query object whose dataRoles, when present, is a list; a projections map; a
  direct dataRoles list; each may be absent), the extracted list is the bindings of the
  nested query list, then one binding per field reference of each projected role, then
  the bindings of the direct list: all three, in this order, and nothing else. When the
  query shape is well formed and the value under \<open>projections\<close> is present and is no
  map, the extracted list is the bindings of the nested query list followed by one error
  marker, whatever the direct list holds.
\<close>

theorem extract_data_roles_union:
  assumes "map_of c (T ''singleVisual'') = Some (JObj sv)"
    and "nested_query_roles sv = Some q"
  shows "(\<forall>p d. projection_bindings sv = Some p \<and> direct_roles sv = Some d \<longrightarrow>
            extract_data_roles exc_str (JObj c) = Inr (JArr (q @ p @ d))) \<and>
         (\<forall>p. map_of sv (T ''projections'') = Some p \<and> \<not> is_obj p \<longrightarrow>
            extract_data_roles exc_str (JObj c) =
              Inr (JArr (q @ [JObj [(T ''error'', JStr (exc_str AttributeError))]])))"
proof (intro conjI allI impI)
  fix p d
  assume a: "projection_bindings sv = Some p \<and> direct_roles sv = Some d"
  then have p: "projection_bindings sv = Some p" and d: "direct_roles sv = Some d"
    by simp_all
  show "extract_data_roles exc_str (JObj c) = Inr (JArr (q @ p @ d))"
    using assms(1)
    by (simp add: extract_data_roles_def data_roles_body_def
          data_roles_query_wf [OF assms(2)] data_roles_projections_wf [OF p]
          data_roles_direct_wf [OF d])
next
  fix p
  assume a: "map_of sv (T ''projections'') = Some p \<and> \<not> is_obj p"
  then have m: "map_of sv (T ''projections'') = Some p" and n: "\<not> is_obj p"
    by simp_all
  show "extract_data_roles exc_str (JObj c) =
          Inr (JArr (q @ [JObj [(T ''error'', JStr (exc_str AttributeError))]]))"
    using assms(1)
    by (simp add: extract_data_roles_def data_roles_body_def
          data_roles_query_wf [OF assms(2)] data_roles_projections_not_a_map [OF m n])
qed

theorem extract_data_roles_union_witness:
  "\<forall>exc_str.
     extract_data_roles exc_str
       (JObj [(T ''singleVisual'', JObj
          [(T ''query'', JObj [(T ''dataRoles'', JArr [JStr (T ''Axis'')])]),
           (T ''projections'', JObj [(T ''Y'', JArr [JStr (T ''Sales''), JStr (T ''Cost'')])]),
           (T ''dataRoles'', JArr [JStr (T ''Legend'')])])])
     = Inr (JArr [JStr (T ''Axis''),
                  JObj [(T ''role'', JStr (T ''Y'')), (T ''field'', JStr (T ''Sales''))],
                  JObj [(T ''role'', JStr (T ''Y'')), (T ''field'', JStr (T ''Cost''))],
                  JStr (T ''Legend'')]) \<and>
     extract_data_roles exc_str
       (JObj [(T ''singleVisual'', JObj
          [(T ''query'', JObj [(T ''dataRoles'', JArr [JStr (T ''Axis'')])]),
           (T ''projections'', JArr [JStr (T ''Sales'')]),
           (T ''dataRoles'', JArr [JStr (T ''Legend'')])])])
     = Inr (JArr [JStr (T ''Axis''), JObj [(T ''error'', JStr (exc_str AttributeError))]])"
proof (intro allI conjI)
  fix exc_str
  let ?sv = "[(T ''query'', JObj [(T ''dataRoles'', JArr [JStr (T ''Axis'')])]),
         (T ''projections'', JObj [(T ''Y'', JArr [JStr (T ''Sales''), JStr (T ''Cost'')])]),
         (T ''dataRoles'', JArr [JStr (T ''Legend'')])]"
  have c: "map_of [(T ''singleVisual'', JObj ?sv)] (T ''singleVisual'') = Some (JObj ?sv)"
    by simp
  have q: "nested_query_roles ?sv = Some [JStr (T ''Axis'')]"
    by (simp add: nested_query_roles_def)
  have p: "projection_bindings ?sv =
      Some [JObj [(T ''role'', JStr (T ''Y'')), (T ''field'', JStr (T ''Sales''))],
            JObj [(T ''role'', JStr (T ''Y'')), (T ''field'', JStr (T ''Cost''))]]"
    by (simp add: projection_bindings_def)
  have d: "direct_roles ?sv = Some [JStr (T ''Legend'')]"
    by (simp add: direct_roles_def)
  from extract_data_roles_union [OF c q, of exc_str] p d
  show "extract_data_roles exc_str (JObj [(T ''singleVisual'', JObj ?sv)])
   = Inr (JArr [JStr (T ''Axis''),
                JObj [(T ''role'', JStr (T ''Y'')), (T ''field'', JStr (T ''Sales''))],
                JObj [(T ''role'', JStr (T ''Y'')), (T ''field'', JStr (T ''Cost''))],
                JStr (T ''Legend'')])"
    by simp
next
  fix exc_str
  let ?sv = "[(T ''query'', JObj [(T ''dataRoles'', JArr [JStr (T ''Axis'')])]),
         (T ''projections'', JArr [JStr (T ''Sales'')]),
         (T ''dataRoles'', JArr [JStr (T ''Legend'')])]"
  have c: "map_of [(T ''singleVisual'', JObj ?sv)] (T ''singleVisual'') = Some (JObj ?sv)"
    by simp
  have q: "nested_query_roles ?sv = Some [JStr (T ''Axis'')]"
    by (simp add: nested_query_roles_def)
  have m: "map_of ?sv (T ''projections'') = Some (JArr [JStr (T ''Sales'')])"
    by simp
  have n: "\<not> is_obj (JArr [JStr (T ''Sales'')])"
    by (simp add: is_obj_def)
  from extract_data_roles_union [OF c q, of exc_str] m n
  show "extract_data_roles exc_str (JObj [(T ''singleVisual'', JObj ?sv)])
   = Inr (JArr [JStr (T ''Axis''), JObj [(T ''error'', JStr (exc_str AttributeError))]])"
    by simp
qed

text \<open>
  The claim as the spec words it fails at a configuration whose \<open>projections\<close> value is
  the number 5: the call of \<open>items\<close> raises inside the \<open>try\<close>, the handler appends an
  error marker, and the binding of the direct \<open>dataRoles\<close> list, well formed, is not in
  the result.
\<close>

theorem extract_data_roles_drops_direct:
  "\<forall>exc_str.
     extract_data_roles exc_str
       (JObj [(T ''singleVisual'', JObj
          [(T ''projections'', JInt 5),
           (T ''dataRoles'', JArr [JStr (T ''Legend'')])])])
     = Inr (JArr [JObj [(T ''error'', JStr (exc_str AttributeError))]]) \<and>
     direct_roles [(T ''projections'', JInt 5), (T ''dataRoles'', JArr [JStr (T ''Legend'')])]
       = Some [JStr (T ''Legend'')] \<and>
     JStr (T ''Legend'') \<notin> set [JObj [(T ''error'', JStr (exc_str AttributeError))]]"
proof
  fix exc_str
  show "extract_data_roles exc_str
       (JObj [(T ''singleVisual'', JObj
          [(T ''projections'', JInt 5),
           (T ''dataRoles'', JArr [JStr (T ''Legend'')])])])
     = Inr (JArr [JObj [(T ''error'', JStr (exc_str AttributeError))]]) \<and>
     direct_roles [(T ''projections'', JInt 5), (T ''dataRoles'', JArr [JStr (T ''Legend'')])]
       = Some [JStr (T ''Legend'')] \<and>
     JStr (T ''Legend'') \<notin> set [JObj [(T ''error'', JStr (exc_str AttributeError))]]"
    by (simp add: extract_data_roles_def data_roles_body_def data_roles_query_def
          data_roles_projections_def direct_roles_def)
qed


text \<open>
  The two failures of \<open>json.loads\<close> that are no JSONDecodeError. Brackets nested
  deeper than the recursion the interpreter has left raise RecursionError, and an integer
  literal of more digits than the limit raises ValueError.
\<close>

lemmas loads_eval = json_loads_def default_limits_def T_def ws_len_def is_ws_def Let_def
  scan_scalar_def scan_number_def is_digit_def digits_value_def

lemma parse_value_too_deep:
  "d < n \<Longrightarrow> parse_value md d (replicate n 91) = Inl RecursionError"
proof (induction d arbitrary: n)
  case 0
  then obtain m where "n = Suc m" by (cases n) auto
  then show ?case by simp
next
  case (Suc d)
  then obtain m where n: "n = Suc m" and m: "d < m" by (cases n) auto
  from m obtain j where mj: "m = Suc j" by (cases m) auto
  have w: "ws_len (replicate m 91) = 0"
    by (simp add: mj ws_len_def is_ws_def)
  have "parse_value md d (replicate m 91) = Inl RecursionError"
    using Suc.IH [OF m] .
  then show ?case
    by (simp add: n w) (simp add: mj)
qed

lemma json_loads_too_deep:
  "recursion_depth lim < n \<Longrightarrow> json_loads lim (replicate n 91) = Inl RecursionError"
proof -
  assume a: "recursion_depth lim < n"
  then obtain m where n: "n = Suc m" by (cases n) auto
  have w: "ws_len (replicate n 91) = 0" by (simp add: n ws_len_def is_ws_def)
  show ?thesis
    using parse_value_too_deep [OF a, of "int_max_str_digits lim"]
    by (simp add: json_loads_def w) (simp add: n)
qed

lemma takeWhile_replicate_digit: "takeWhile is_digit (replicate n 49) = replicate n 49"
  by (induction n) (simp_all add: is_digit_def)

lemma scan_number_too_long:
  assumes "0 < md" "md < n" "640 < n"
  shows "scan_number md (replicate n 49) = Inl ValueError"
proof -
  from assms obtain m where n: "n = Suc m" by (cases n) auto
  show ?thesis
    using assms
    by (simp add: n scan_number_def is_digit_def takeWhile_replicate_digit Let_def)
qed

lemma json_loads_too_long:
  assumes "0 < int_max_str_digits lim" "int_max_str_digits lim < n" "640 < n"
  shows "json_loads lim (replicate n 49) = Inl ValueError"
proof -
  from assms obtain m where n: "n = Suc m" by (cases n) auto
  have w: "ws_len (replicate n 49) = 0" by (simp add: n ws_len_def is_ws_def)
  have s: "scan_scalar (int_max_str_digits lim) (replicate n 49) = Inl ValueError"
    using scan_number_too_long [OF assms] by (simp add: scan_scalar_def n T_def)
  have "parse_value (int_max_str_digits lim) (recursion_depth lim) (replicate n 49)
          = Inl ValueError"
    using s by (simp add: n)
  then show ?thesis by (simp add: json_loads_def w) (simp add: n)
qed

lemma py_strip_Nil_iff: "py_strip t = [] \<longleftrightarrow> (\<forall>c \<in> set t. py_isspace c)"
proof -
  have "(\<forall>c \<in> set (dropWhile py_isspace t). py_isspace c) \<longleftrightarrow> (\<forall>c \<in> set t. py_isspace c)"
  proof
    assume a: "\<forall>c \<in> set (dropWhile py_isspace t). py_isspace c"
    have "dropWhile py_isspace t = []"
    proof (rule ccontr)
      assume n: "dropWhile py_isspace t \<noteq> []"
      then have "\<not> py_isspace (hd (dropWhile py_isspace t))" by (rule hd_dropWhile)
      moreover have "hd (dropWhile py_isspace t) \<in> set (dropWhile py_isspace t)"
        using n by simp
      ultimately show False using a by blast
    qed
    then show "\<forall>c \<in> set t. py_isspace c" by (simp add: dropWhile_eq_Nil_conv)
  next
    assume "\<forall>c \<in> set t. py_isspace c"
    then show "\<forall>c \<in> set (dropWhile py_isspace t). py_isspace c"
      by (meson set_dropWhileD)
  qed
  then show ?thesis
    by (simp add: py_strip_def dropWhile_eq_Nil_conv)
qed


lemma strip_char_replicate: "c \<noteq> x \<Longrightarrow> strip_char c (replicate n x) = replicate n x"
  by (cases n) (simp_all add: strip_char_def replicate_append_same)

lemma failed_config_derived:
  fixes a b :: json
  defines "cfg \<equiv> JObj [(T ''error'', a), (T ''raw'', b)]"
  shows "extract_visual_type cfg = Inr (JStr (T ''Unknown''))"
    and "extract_data_roles exc_str cfg = Inr (JArr [])"
    and "extract_visual_properties exc_str cfg = []"
    and "extract_text_content cfg = None"
    and "extract_bookmarks_and_actions exc_str cfg = []"
  unfolding cfg_def
  by (simp_all add: extract_visual_type_def extract_data_roles_def data_roles_body_def
        extract_visual_properties_def properties_body_def extract_text_content_def
        text_content_body_def extract_bookmarks_and_actions_def actions_body_def
        in_and_in_def)

lemma rounded_field_ok:
  assumes "roundable v k"
  shows "\<exists>r. rounded_field (JObj v) k = Inr r"
  using assms
  by (auto simp: roundable_def rounded_field_def split: option.splits json.splits)

text \<open>
  C3 (as amended). For a visual candidate (an object whose geometry values are numbers
  or absent) whose configuration string makes the parser's call of \<open>json.loads\<close> raise
  JSONDecodeError or ValueError (the call reads the string itself when it starts with a
  brace, otherwise the string without its leading and trailing double quotes),
  classify-and-extract raises no error and returns a Visual record with canonical type
  \<open>Unknown\<close> and with data roles, properties, text content and actions all empty.
\<close>

theorem enhance_visual_data_degrades:
  assumes "map_of v (T ''properties'') = Some (JStr config_str)"
    and "json_loads lim (config_text config_str) = Inl e"
    and "e = JSONDecodeError \<or> e = ValueError"
    and "geometry_ok v"
  shows "\<exists>r. enhance_visual_data lim exc_str (JObj v) page = Inr r \<and>
             ev_enhanced_type r = JStr (T ''Unknown'') \<and>
             ev_data_roles r = JArr [] \<and> ev_properties r = [] \<and>
             ev_text_content r = None \<and> ev_actions r = [] \<and>
             ev_config_size r = length config_str"
proof -
  from assms(4) obtain x y w h where g:
    "rounded_field (JObj v) (T ''x'') = Inr x"
    "rounded_field (JObj v) (T ''y'') = Inr y"
    "rounded_field (JObj v) (T ''width'') = Inr w"
    "rounded_field (JObj v) (T ''height'') = Inr h"
    unfolding geometry_ok_def using rounded_field_ok by metis
  have p: "parse_visual_config lim (JStr config_str) =
             Inr (JObj [(T ''error'', JStr (T ''Failed to parse config'')),
                        (T ''raw'', JStr (take 200 config_str))])"
    using assms(2,3) by auto
  show ?thesis
    using assms(1)
    by (simp add: enhance_visual_data_def g p failed_config_derived del: parse_visual_config.simps)
qed

theorem enhance_visual_data_degrades_witness:
  "\<forall>exc_str.
    (\<exists>r.
       enhance_visual_data default_limits exc_str
         (JObj [(T ''id'', JInt 7), (T ''properties'', JStr (T ''{\"singleVisual\":'')),
                (T ''x'', JInt 10)]) (JStr (T ''Page 1'')) = Inr r \<and>
       ev_enhanced_type r = JStr (T ''Unknown'') \<and>
       ev_data_roles r = JArr [] \<and> ev_properties r = [] \<and>
       ev_text_content r = None \<and> ev_actions r = [] \<and> ev_config_size r = 16) \<and>
    json_loads default_limits (config_text (replicate 4301 49)) = Inl ValueError \<and>
    (\<exists>r.
       enhance_visual_data default_limits exc_str
         (JObj [(T ''properties'', JStr (replicate 4301 49))]) JNull = Inr r \<and>
       ev_enhanced_type r = JStr (T ''Unknown'') \<and>
       ev_data_roles r = JArr [] \<and> ev_properties r = [] \<and>
       ev_text_content r = None \<and> ev_actions r = [] \<and> ev_config_size r = 4301)"
proof (intro allI conjI)
  fix exc_str
  let ?v = "[(T ''id'', JInt 7), (T ''properties'', JStr (T ''{\"singleVisual\":'')),
              (T ''x'', JInt 10)]"
  have p: "map_of ?v (T ''properties'') = Some (JStr (T ''{\"singleVisual\":''))"
    by simp
  have l: "json_loads default_limits (config_text (T ''{\"singleVisual\":''))
             = Inl JSONDecodeError"
    by (simp add: loads_eval config_text_def)
  have e: "JSONDecodeError = JSONDecodeError \<or> JSONDecodeError = ValueError"
    by simp
  have g: "geometry_ok ?v"
    by (simp add: geometry_ok_def roundable_def)
  have n: "length (T ''{\"singleVisual\":'') = 16"
    by (simp add: T_def)
  show "\<exists>r.
     enhance_visual_data default_limits exc_str (JObj ?v) (JStr (T ''Page 1'')) = Inr r \<and>
     ev_enhanced_type r = JStr (T ''Unknown'') \<and>
     ev_data_roles r = JArr [] \<and> ev_properties r = [] \<and>
     ev_text_content r = None \<and> ev_actions r = [] \<and> ev_config_size r = 16"
    using enhance_visual_data_degrades [OF p l e g, of exc_str "JStr (T ''Page 1'')"] n
    by simp
next
  have c: "config_text (replicate 4301 49) = replicate 4301 49"
    by (simp add: config_text_def strip_char_replicate)
  show l: "json_loads default_limits (config_text (replicate 4301 49)) = Inl ValueError"
    unfolding c by (rule json_loads_too_long) (simp_all add: default_limits_def)
  fix exc_str
  let ?v = "[(T ''properties'', JStr (replicate 4301 49))]"
  have p: "map_of ?v (T ''properties'') = Some (JStr (replicate 4301 49))"
    by simp
  have e: "ValueError = JSONDecodeError \<or> ValueError = ValueError"
    by simp
  have g: "geometry_ok ?v"
    by (simp add: geometry_ok_def roundable_def)
  show "\<exists>r.
     enhance_visual_data default_limits exc_str (JObj ?v) JNull = Inr r \<and>
     ev_enhanced_type r = JStr (T ''Unknown'') \<and>
     ev_data_roles r = JArr [] \<and> ev_properties r = [] \<and>
     ev_text_content r = None \<and> ev_actions r = [] \<and> ev_config_size r = 4301"
    using enhance_visual_data_degrades [OF p l e g, of exc_str JNull]
    by simp
qed

text \<open>
  The claim as the spec words it fails in the canonical type it names: for the
  configuration string \<open>{\<close>, which is not valid JSON, the record's canonical type is
  \<open>Unknown\<close>, capitalised, the constant the code uses throughout, and not \<open>unknown\<close>.
\<close>

theorem enhance_visual_data_invalid_json:
  "(\<forall>exc_str. \<exists>r.
      enhance_visual_data default_limits exc_str (JObj [(T ''properties'', JStr (T ''{''))]) JNull
        = Inr r \<and>
      ev_enhanced_type r = JStr (T ''Unknown'') \<and> ev_enhanced_type r \<noteq> JStr (T ''unknown'')) \<and>
   json_loads default_limits (T ''{'') = Inl JSONDecodeError"
proof -
  have l1: "json_loads default_limits (T ''{'') = Inl JSONDecodeError"
    by (simp add: loads_eval)
  have c1: "config_text (T ''{'') = T ''{''" by (simp add: config_text_def T_def)
  have l: "json_loads default_limits (config_text (T ''{'')) = Inl JSONDecodeError"
    using l1 c1 by simp
  have g: "geometry_ok [(T ''properties'', JStr (T ''{''))]"
    by (simp add: geometry_ok_def roundable_def)
  have p: "map_of [(T ''properties'', JStr (T ''{''))] (T ''properties'') = Some (JStr (T ''{''))"
    by simp
  have e: "JSONDecodeError = JSONDecodeError \<or> JSONDecodeError = ValueError"
    by simp
  have u: "JStr (T ''Unknown'') \<noteq> JStr (T ''unknown'')" by simp
  have a: "\<exists>r.
      enhance_visual_data default_limits exc_str (JObj [(T ''properties'', JStr (T ''{''))]) JNull
        = Inr r \<and>
      ev_enhanced_type r = JStr (T ''Unknown'') \<and> ev_enhanced_type r \<noteq> JStr (T ''unknown'')"
    for exc_str
    using enhance_visual_data_degrades [OF p l e g, of exc_str JNull] u by auto
  from a l1 show ?thesis by blast
qed

text \<open>
  Two kinds of input the amended claim leaves out, where the code raises: a
  configuration string that is not valid JSON but parses once its quotes are stripped
  (\<open>"5\<close> is read as the number 5, in which \<open>extract_visual_type\<close>, the one extractor
  with no \<open>try\<close>, cannot look for a key), and one nested deeper than the interpreter's
  recursion limit, whose RecursionError \<open>parse_visual_config\<close> does not catch.
\<close>

lemma enhance_visual_data_stripped_number:
  "json_loads default_limits (T ''\"5'') = Inl JSONDecodeError \<and>
   enhance_visual_data default_limits exc_str (JObj [(T ''properties'', JStr (T ''\"5''))]) JNull
     = Inl TypeError"
proof -
  have l2: "json_loads default_limits (T ''\"5'') = Inl JSONDecodeError"
    by (simp add: loads_eval)
  have c2: "json_loads default_limits (config_text (T ''\"5'')) = Inr (JInt 5)"
    by (simp add: loads_eval config_text_def strip_char_def)
  show ?thesis
    by (simp add: l2 enhance_visual_data_def c2 extract_visual_type_def in_and_in_def)
qed

lemma enhance_visual_data_too_deep:
  assumes "recursion_depth lim < n"
  shows "enhance_visual_data lim exc_str
           (JObj [(T ''properties'', JStr (replicate n 91))]) page = Inl RecursionError"
proof -
  have c: "config_text (replicate n 91) = replicate n 91"
    by (simp add: config_text_def strip_char_replicate)
  show ?thesis
    by (simp add: enhance_visual_data_def c json_loads_too_deep [OF assms])
qed


lemma nat_digits_small: "n < 10 \<Longrightarrow> nat_digits n = [48 + n]"
  by simp

lemma section_marker_0123:
  "section_marker 0 = T ''sections[0]''"
  "section_marker 1 = T ''sections[1]''"
  "section_marker 2 = T ''sections[2]''"
  "section_marker 3 = T ''sections[3]''"
  "section_marker (Suc 0) = T ''sections[1]''"
  by (simp_all add: section_marker_def T_def)

lemma containers_loop_wf:
  "list_all is_obj cs \<Longrightarrow>
   containers_loop ro vid cs = Inr (vid \<in> set (map (container_id ro) cs))"
proof (induction cs)
  case Nil
  then show ?case by simp
next
  case (Cons c cs)
  from Cons.prems obtain kvs where c: "c = JObj kvs"
    by (auto simp: is_obj_def split: json.splits)
  from Cons show ?case
    by (auto simp: c container_id_def split: option.splits)
qed

lemma page_containers_step:
  assumes "page_containers page = Some cs"
  shows "err_bind (py_get page (T ''raw_data'') (JObj [])) (\<lambda>raw_data.
         err_bind (py_get raw_data (T ''visualContainers'') (JArr [])) (\<lambda>visual_containers.
         err_bind (py_iter visual_containers) (containers_loop ro vid)))
         = Inr (page_has_id ro vid page)"
  using assms
  by (auto simp: page_containers_def page_has_id_def containers_loop_wf
           split: json.splits option.splits if_splits)

lemma pages_loop_wf:
  "list_all wf_page pages \<Longrightarrow>
   pages_loop ro vid pages =
     Inr (case find (page_has_id ro vid) pages of None \<Rightarrow> None | Some p \<Rightarrow> page_name_of p)"
proof (induction pages)
  case Nil
  then show ?case by simp
next
  case (Cons page pages)
  from Cons.prems obtain cs n p where
    cs: "page_containers page = Some cs" and n: "page_name_of page = Some n"
    and p: "page = JObj p"
    by (auto simp: wf_page_def page_name_of_def split: json.splits)
  from n p have g: "py_getitem page (T ''name'') = Inr n"
    by (simp add: page_name_of_def)
  show ?case
  proof (cases "page_has_id ro vid page")
    case True
    then show ?thesis
      by (simp add: page_containers_step [OF cs] g n)
  next
    case False
    then show ?thesis
      using Cons by (simp add: page_containers_step [OF cs])
  qed
qed

lemma wf_page_getitem:
  "wf_page page \<Longrightarrow> page_name_of page = Some n \<Longrightarrow> py_getitem page (T ''name'') = Inr n"
  by (auto simp: wf_page_def page_name_of_def split: json.splits)

lemma first_page_or_unknown_wf:
  "list_all wf_page pages \<Longrightarrow>
   first_page_or_unknown pages =
     (case pages of [] \<Rightarrow> Inr (JStr (T ''Unknown''))
      | p # rest \<Rightarrow> (case page_name_of p of Some n \<Rightarrow> Inr n | None \<Rightarrow> Inl KeyError))"
  by (cases pages) (auto simp: wf_page_def page_name_of_def split: json.splits option.splits)

lemma extract_page_wf:
  assumes "list_all wf_page pages" and "visual_path v = Some path"
  shows "extract_page_from_visual ro (JObj v) pages =
     (case find (page_has_id ro (visual_id_str ro v)) pages of
        Some p \<Rightarrow> (case page_name_of p of Some n \<Rightarrow> Inr n | None \<Rightarrow> Inl KeyError)
      | None \<Rightarrow>
         (case least_marker path of
            None \<Rightarrow> first_page_or_unknown pages
          | Some n \<Rightarrow>
             if n < length pages then py_getitem (pages ! n) (T ''name'')
             else first_page_or_unknown pages))"
proof -
  have vp: "(case map_of v (T ''path'') of None \<Rightarrow> JStr [] | Some x \<Rightarrow> x) = JStr path"
    using assms(2) by (auto simp: visual_path_def split: option.splits json.splits)
  have vi: "py_str ro (case map_of v (T ''id'') of None \<Rightarrow> JStr [] | Some i \<Rightarrow> i)
              = visual_id_str ro v"
    by (simp add: visual_id_str_def)
  show ?thesis
  proof (cases "find (page_has_id ro (visual_id_str ro v)) pages")
    case (Some p)
    then have "p \<in> set pages" by (auto simp: find_Some_iff)
    then have "wf_page p" using assms(1) by (simp add: list_all_iff)
    then obtain n where "page_name_of p = Some n" by (auto simp: wf_page_def)
    then show ?thesis
      by (simp add: extract_page_from_visual_def vi pages_loop_wf [OF assms(1)] Some)
  next
    case None
    have z: "0 < length pages \<Longrightarrow> py_getitem (pages ! 0) (T ''name'') = first_page_or_unknown pages"
      by (cases pages) simp_all
    have e: "length pages = 0 \<Longrightarrow> first_page_or_unknown pages = Inr (JStr (T ''Unknown''))"
      by simp
    show ?thesis
      using z e
      by (auto simp add: extract_page_from_visual_def vi vp pages_loop_wf [OF assms(1)] None
            least_marker_def section_marker_0123)
  qed
qed

text \<open>
  C5 (as amended). For a visual (an object whose path is a string or absent) and a list
  of well-formed pages, the resolver applies this chain. (1) If some page's raw
  visual-container list holds an entry whose id, printed as text (an absent id as the
  empty text), equals the visual's id printed the same way, the first such page in list
  order is assigned. (2) Otherwise, if one of the marker texts \<open>sections[0]\<close> to
  \<open>sections[3]\<close> occurs anywhere in the visual's discovery path, the lowest such N is
  taken and the N-th page is assigned when the list has one. (3) Otherwise (no marker
  among these four, or no N-th page) the first page is assigned, and the visual is
  marked \<open>Unknown\<close> only when the page list is empty.
\<close>

theorem resolver_fallback_chain:
  assumes "list_all wf_page pages" and "visual_path v = Some path"
  shows
    "(\<forall>p nm. find (page_has_id ro (visual_id_str ro v)) pages = Some p \<and>
        page_name_of p = Some nm \<longrightarrow>
        extract_page_from_visual ro (JObj v) pages = Inr nm) \<and>
     (\<forall>n nm. find (page_has_id ro (visual_id_str ro v)) pages = None \<and>
        least_marker path = Some n \<and> n < length pages \<and>
        page_name_of (pages ! n) = Some nm \<longrightarrow>
        extract_page_from_visual ro (JObj v) pages = Inr nm) \<and>
     (find (page_has_id ro (visual_id_str ro v)) pages = None \<and>
        (least_marker path = None \<or> (\<exists>n. least_marker path = Some n \<and> length pages \<le> n)) \<longrightarrow>
        extract_page_from_visual ro (JObj v) pages =
          (case pages of [] \<Rightarrow> Inr (JStr (T ''Unknown''))
           | p # rest \<Rightarrow> (case page_name_of p of Some nm \<Rightarrow> Inr nm | None \<Rightarrow> Inl KeyError)))"
proof (intro conjI allI impI)
  fix p nm
  assume "find (page_has_id ro (visual_id_str ro v)) pages = Some p \<and> page_name_of p = Some nm"
  then show "extract_page_from_visual ro (JObj v) pages = Inr nm"
    by (simp add: extract_page_wf [OF assms])
next
  fix n nm
  assume a: "find (page_has_id ro (visual_id_str ro v)) pages = None \<and>
        least_marker path = Some n \<and> n < length pages \<and>
        page_name_of (pages ! n) = Some nm"
  then have "wf_page (pages ! n)" using assms(1) by (simp add: list_all_length)
  then have "py_getitem (pages ! n) (T ''name'') = Inr nm"
    using a wf_page_getitem by blast
  then show "extract_page_from_visual ro (JObj v) pages = Inr nm"
    using a by (simp add: extract_page_wf [OF assms])
next
  assume a: "find (page_has_id ro (visual_id_str ro v)) pages = None \<and>
        (least_marker path = None \<or> (\<exists>n. least_marker path = Some n \<and> length pages \<le> n))"
  then show "extract_page_from_visual ro (JObj v) pages =
          (case pages of [] \<Rightarrow> Inr (JStr (T ''Unknown''))
           | p # rest \<Rightarrow> (case page_name_of p of Some nm \<Rightarrow> Inr nm | None \<Rightarrow> Inl KeyError))"
    by (auto simp add: extract_page_wf [OF assms] first_page_or_unknown_wf [OF assms(1)])
qed

lemma named_page_facts:
  "wf_page (named_page n)"
  "page_name_of (named_page n) = Some (JStr (T n))"
  "page_has_id ro vid (named_page n) = False"
  "py_getitem (named_page n) (T ''name'') = Inr (JStr (T n))"
  by (simp_all add: named_page_def wf_page_def page_containers_def page_name_of_def
        page_has_id_def)

theorem resolver_fallback_chain_witness:
  "\<forall>ro. extract_page_from_visual ro
          (JObj [(T ''id'', JStr (T ''v1'')), (T ''path'', JStr (T ''sections[2].visualContainers[0]''))])
          [named_page ''P0'', named_page ''P1'', named_page ''P2'']
        = Inr (JStr (T ''P2''))"
proof
  fix ro
  let ?v = "[(T ''id'', JStr (T ''v1'')), (T ''path'', JStr (T ''sections[2].visualContainers[0]''))]"
  let ?pages = "[named_page ''P0'', named_page ''P1'', named_page ''P2'']"
  have w: "list_all wf_page ?pages"
    by (simp add: named_page_facts)
  have p: "visual_path ?v = Some (T ''sections[2].visualContainers[0]'')"
    by (simp add: visual_path_def)
  have f: "find (page_has_id ro (visual_id_str ro ?v)) ?pages = None"
    by (simp add: named_page_facts)
  have m: "least_marker (T ''sections[2].visualContainers[0]'') = Some 2"
    by (simp add: least_marker_def section_marker_def T_def)
  have n: "page_name_of (?pages ! 2) = Some (JStr (T ''P2''))"
    by (simp add: named_page_facts)
  from resolver_fallback_chain [OF w p, of ro] f m n
  show "extract_page_from_visual ro (JObj ?v) ?pages = Inr (JStr (T ''P2''))"
    by simp
qed

text \<open>
  The claim as the spec words it fails for N = 4: a visual found under the fifth section
  of a report with five pages is given the first page, not the fifth. The code tests the
  markers of the first four sections only.
\<close>

theorem resolver_fifth_section:
  "\<forall>ro. extract_page_from_visual ro
          (JObj [(T ''id'', JStr (T ''v1'')), (T ''path'', JStr (T ''sections[4].visualContainers[0]''))])
          [named_page ''P0'', named_page ''P1'', named_page ''P2'', named_page ''P3'',
           named_page ''P4'']
        = Inr (JStr (T ''P0'')) \<and>
      str_contains (T ''sections[4].visualContainers[0]'') (section_marker 4) \<and>
      page_name_of ([named_page ''P0'', named_page ''P1'', named_page ''P2'', named_page ''P3'',
           named_page ''P4''] ! 4) = Some (JStr (T ''P4'')) \<and>
      JStr (T ''P4'') \<noteq> JStr (T ''P0'')"
proof
  fix ro
  let ?v = "[(T ''id'', JStr (T ''v1'')), (T ''path'', JStr (T ''sections[4].visualContainers[0]''))]"
  let ?pages = "[named_page ''P0'', named_page ''P1'', named_page ''P2'', named_page ''P3'',
           named_page ''P4'']"
  have w: "list_all wf_page ?pages"
    by (simp add: named_page_facts)
  have p: "visual_path ?v = Some (T ''sections[4].visualContainers[0]'')"
    by (simp add: visual_path_def)
  have f: "find (page_has_id ro (visual_id_str ro ?v)) ?pages = None"
    by (simp add: named_page_facts)
  have m: "least_marker (T ''sections[4].visualContainers[0]'') = None"
    by (simp add: least_marker_def section_marker_def T_def)
  have c: "str_contains (T ''sections[4].visualContainers[0]'') (section_marker 4)"
    by (simp add: section_marker_def T_def)
  have r: "extract_page_from_visual ro (JObj ?v) ?pages = Inr (JStr (T ''P0''))"
    by (simp add: extract_page_wf [OF w p] f m named_page_facts)
  show "extract_page_from_visual ro (JObj ?v) ?pages = Inr (JStr (T ''P0'')) \<and>
      str_contains (T ''sections[4].visualContainers[0]'') (section_marker 4) \<and>
      page_name_of (?pages ! 4) = Some (JStr (T ''P4'')) \<and>
      JStr (T ''P4'') \<noteq> JStr (T ''P0'')"
    using r c by (simp add: named_page_facts)
qed


text \<open>
  C9. The resolver is deterministic: it is a function of the visual record and the page
  list, so that two runs on identical input assign the same page (or both mark the visual
  Unknown, or both raise the same error); no step of it chooses. More than that, of the
  visual record it reads the id and the path only: two visuals that agree on these two
  are given the same page, whatever else they carry.
\<close>

theorem resolver_deterministic:
  "(v = v' \<and> pages = pages' \<longrightarrow>
      extract_page_from_visual ro v pages = extract_page_from_visual ro v' pages') \<and>
   (py_get v (T ''id'') (JStr []) = py_get v' (T ''id'') (JStr []) \<and>
    py_get v (T ''path'') (JStr []) = py_get v' (T ''path'') (JStr []) \<longrightarrow>
      extract_page_from_visual ro v pages = extract_page_from_visual ro v' pages)"
proof (intro conjI impI)
  assume "v = v' \<and> pages = pages'"
  then show "extract_page_from_visual ro v pages = extract_page_from_visual ro v' pages'"
    by simp
next
  assume a: "py_get v (T ''id'') (JStr []) = py_get v' (T ''id'') (JStr []) \<and>
    py_get v (T ''path'') (JStr []) = py_get v' (T ''path'') (JStr [])"
  from a have i: "py_get v (T ''id'') (JStr []) = py_get v' (T ''id'') (JStr [])" ..
  from a have p: "py_get v (T ''path'') (JStr []) = py_get v' (T ''path'') (JStr [])" ..
  show "extract_page_from_visual ro v pages = extract_page_from_visual ro v' pages"
    unfolding extract_page_from_visual_def i p by (rule refl)
qed

theorem resolver_deterministic_witness:
  "\<forall>ro. extract_page_from_visual ro
          (JObj [(T ''id'', JInt 7), (T ''type'', JStr (T ''card''))])
          [named_page ''P0'', named_page ''P1'']
       = extract_page_from_visual ro
          (JObj [(T ''x'', JInt 3), (T ''id'', JInt 7)])
          [named_page ''P0'', named_page ''P1'']"
proof
  fix ro
  have i: "py_get (JObj [(T ''id'', JInt 7), (T ''type'', JStr (T ''card''))]) (T ''id'') (JStr [])
         = py_get (JObj [(T ''x'', JInt 3), (T ''id'', JInt 7)]) (T ''id'') (JStr [])"
    by simp
  have p: "py_get (JObj [(T ''id'', JInt 7), (T ''type'', JStr (T ''card''))]) (T ''path'') (JStr [])
         = py_get (JObj [(T ''x'', JInt 3), (T ''id'', JInt 7)]) (T ''path'') (JStr [])"
    by simp
  from resolver_deterministic [of "JObj [(T ''id'', JInt 7), (T ''type'', JStr (T ''card''))]"
      "JObj [(T ''x'', JInt 3), (T ''id'', JInt 7)]" "[named_page ''P0'', named_page ''P1'']"
      "[named_page ''P0'', named_page ''P1'']" ro] i p
  show "extract_page_from_visual ro
          (JObj [(T ''id'', JInt 7), (T ''type'', JStr (T ''card''))])
          [named_page ''P0'', named_page ''P1'']
       = extract_page_from_visual ro
          (JObj [(T ''x'', JInt 3), (T ''id'', JInt 7)])
          [named_page ''P0'', named_page ''P1'']"
    by blast
qed


lemma unit_bytes_value:
  assumes "u < 65536"
  shows "unit_bytes u = [lo, hi] \<Longrightarrow> unat lo + 256 * unat hi = u"
proof -
  assume e: "unit_bytes u = [lo, hi]"
  from e have lo: "lo = of_nat (u mod 256)" and hi: "hi = of_nat (u div 256)"
    by (simp_all add: unit_bytes_def)
  have "u div 256 < 256" using assms by simp
  then have "unat hi = u div 256"
    by (simp add: hi unat_of_nat)
  moreover have "unat lo = u mod 256"
    by (simp add: lo unat_of_nat)
  ultimately show ?thesis by simp
qed

lemma utf16le_decode_unit:
  assumes "u < 55296 \<or> (57343 < u \<and> u < 65536)"
  shows "utf16le_decode (unit_bytes u @ rest) = map_option ((#) u) (utf16le_decode rest)"
proof -
  obtain lo hi where e: "unit_bytes u = [lo, hi]" by (simp add: unit_bytes_def)
  from assms have "u < 65536" by auto
  from unit_bytes_value [OF this e] have v: "unat lo + 256 * unat hi = u" .
  show ?thesis using assms by (auto simp add: e v Let_def)
qed

lemma utf16le_decode_pair:
  assumes "55296 \<le> h" "h \<le> 56319" "56320 \<le> l" "l \<le> 57343"
  shows "utf16le_decode (unit_bytes h @ unit_bytes l @ rest) =
           map_option ((#) (65536 + (h - 55296) * 1024 + (l - 56320))) (utf16le_decode rest)"
proof -
  obtain lo hi where e: "unit_bytes h = [lo, hi]" by (simp add: unit_bytes_def)
  obtain lo2 hi2 where e2: "unit_bytes l = [lo2, hi2]" by (simp add: unit_bytes_def)
  from assms have "h < 65536" "l < 65536" by auto
  from unit_bytes_value [OF this(1) e] have v: "unat lo + 256 * unat hi = h" .
  from unit_bytes_value [OF \<open>l < 65536\<close> e2] have v2: "unat lo2 + 256 * unat hi2 = l" .
  show ?thesis using assms by (auto simp add: e e2 v v2 Let_def)
qed

lemma utf16le_roundtrip:
  "list_all scalar_value t \<Longrightarrow> utf16le_decode (utf16le_encode t) = Some t"
proof (induction t)
  case Nil
  then show ?case by simp
next
  case (Cons cp rest)
  then have ih: "utf16le_decode (utf16le_encode rest) = Some rest" by simp
  from Cons.prems have sc: "scalar_value cp" by simp
  show ?case
  proof (cases "cp < 65536")
    case True
    with sc have "cp < 55296 \<or> (57343 < cp \<and> cp < 65536)"
      by (auto simp: scalar_value_def)
    from utf16le_decode_unit [OF this] show ?thesis
      using True by (simp add: ih)
  next
    case False
    define v where "v = cp - 65536"
    from False sc have v: "v < 1048576" and cp: "cp = 65536 + v"
      by (auto simp: scalar_value_def v_def)
    have d: "v div 1024 < 1024" using v by simp
    have m: "v mod 1024 < 1024" by simp
    have r: "65536 + (55296 + v div 1024 - 55296) * 1024 + (56320 + v mod 1024 - 56320) = cp"
      using cp by simp
    have "utf16le_decode (unit_bytes (55296 + v div 1024) @ unit_bytes (56320 + v mod 1024)
             @ utf16le_encode rest) = Some (cp # rest)"
      using utf16le_decode_pair [of "55296 + v div 1024" "56320 + v mod 1024" "utf16le_encode rest"]
        d m r ih by simp
    then show ?thesis using False by (simp add: v_def)
  qed
qed

text \<open>
  C2 (as amended). The encoding resolver tries the encodings in a fixed order: UTF-16LE
  first, then UTF-8, then a final lossy UTF-8 decode that drops the undecodable bytes
  (it puts nothing in their place) and cannot fail. In particular a payload that is
  valid UTF-16LE, the encoding of a text of Unicode scalar values, is decoded by the
  first step to that text.
\<close>

theorem decode_content_cascade:
  "(\<forall>t. utf16le_decode b = Some t \<longrightarrow> decode_content b = t) \<and>
   (\<forall>t. utf16le_decode b = None \<and> utf8_decode b = Some t \<longrightarrow> decode_content b = t) \<and>
   (utf16le_decode b = None \<and> utf8_decode b = None \<longrightarrow>
      decode_content b = utf8_decode_ignore b) \<and>
   (list_all scalar_value s \<longrightarrow>
      utf16le_decode (utf16le_encode s) = Some s \<and> decode_content (utf16le_encode s) = s)"
  by (simp add: decode_content_def utf16le_roundtrip)

theorem decode_content_cascade_witness:
  "utf16le_encode [65, 128512] = [0x41, 0x00, 0x3D, 0xD8, 0x00, 0xDE] \<and>
   decode_content [0x41, 0x00, 0x3D, 0xD8, 0x00, 0xDE] = [65, 128512] \<and>
   utf16le_decode [0xE2, 0x82, 0xAC] = None \<and>
   decode_content [0xE2, 0x82, 0xAC] = [8364]"
proof -
  have e: "utf16le_encode [65, 128512] = [0x41, 0x00, 0x3D, 0xD8, 0x00, 0xDE]"
    by (simp add: unit_bytes_def)
  have s: "list_all scalar_value [65, 128512]"
    by (simp add: scalar_value_def)
  have n: "utf16le_decode [0xE2, 0x82, 0xAC] = None"
    by simp
  have u: "utf8_decode [0xE2, 0x82, 0xAC] = Some [8364]"
    by (simp add: utf8_step_def is_cont_def)
  from decode_content_cascade [of "[0xE2, 0x82, 0xAC]" "[65, 128512]"] e s n u
  show ?thesis by simp
qed

text \<open>
  The claim as the spec words it fails in its last step: the bytes \<open>41 FF 42\<close> are
  neither UTF-16LE (their number is odd) nor UTF-8 (\<open>FF\<close> starts no sequence), and the
  final decode returns \<open>AB\<close>: the undecodable byte is dropped, no replacement
  character U+FFFD stands for it.
\<close>

theorem decode_content_drops:
  "utf16le_decode [0x41, 0xFF, 0x42] = None \<and>
   utf8_decode [0x41, 0xFF, 0x42] = None \<and>
   decode_content [0x41, 0xFF, 0x42] = [65, 66] \<and>
   65533 \<notin> set (decode_content [0x41, 0xFF, 0x42])"
  by (simp add: decode_content_def utf8_step_def is_cont_def)


text \<open>
  C7 (as amended). For every decoded member text that is not blank (not empty and not
  made of whitespace only) and on which \<open>json.loads\<close> raises JSONDecodeError, the parse
  step raises nothing and does not discard the member: it returns a value tagged
  \<open>raw_content\<close> that holds the raw text, cut to its first 1000 characters and followed
  by \<open>...\<close> when the text is longer than that. When \<open>json.loads\<close> fails in another way
  (RecursionError for nesting deeper than the interpreter's recursion limit, ValueError
  for an integer literal over the digit limit), and when the text is blank, the parse
  step returns \<open>None\<close> and the member is discarded.
\<close>

theorem parse_layout_text_fallback:
  "(py_strip t \<noteq> [] \<and> json_loads lim t = Inl JSONDecodeError \<longrightarrow>
      parse_layout_text lim t = Some (JObj [(T ''raw_content'', JStr (raw_content t))]) \<and>
      take 1000 (raw_content t) = take 1000 t \<and>
      length (raw_content t) \<le> 1003 \<and>
      (list_all scalar_value t \<longrightarrow>
         extract_layout_file lim (Some (utf16le_encode t)) =
           Some (JObj [(T ''raw_content'', JStr (raw_content t))]))) \<and>
   (\<forall>e. json_loads lim t = Inl e \<and> e \<noteq> JSONDecodeError \<longrightarrow> parse_layout_text lim t = None) \<and>
   ((\<forall>c \<in> set t. py_isspace c) \<longrightarrow> parse_layout_text lim t = None)"
proof (intro conjI impI allI)
  assume a: "py_strip t \<noteq> [] \<and> json_loads lim t = Inl JSONDecodeError"
  then show p: "parse_layout_text lim t = Some (JObj [(T ''raw_content'', JStr (raw_content t))])"
    by (simp add: parse_layout_text_def)
  show "take 1000 (raw_content t) = take 1000 t"
    by (simp add: raw_content_def)
  show "length (raw_content t) \<le> 1003"
    by (simp add: raw_content_def T_def)
  assume "list_all scalar_value t"
  then show "extract_layout_file lim (Some (utf16le_encode t)) =
           Some (JObj [(T ''raw_content'', JStr (raw_content t))])"
    using p by (simp add: extract_layout_file_def decode_content_def utf16le_roundtrip)
next
  fix e
  assume "json_loads lim t = Inl e \<and> e \<noteq> JSONDecodeError"
  then show "parse_layout_text lim t = None"
    by (simp add: parse_layout_text_def)
next
  assume "\<forall>c \<in> set t. py_isspace c"
  then have "py_strip t = []" by (simp add: py_strip_Nil_iff)
  then show "parse_layout_text lim t = None"
    by (simp add: parse_layout_text_def)
qed

theorem parse_layout_text_fallback_witness:
  "parse_layout_text default_limits (T ''{\"sections\": [}'')
     = Some (JObj [(T ''raw_content'', JStr (T ''{\"sections\": [}''))]) \<and>
   extract_layout_file default_limits (Some (utf16le_encode (T ''{\"sections\": [}'')))
     = Some (JObj [(T ''raw_content'', JStr (T ''{\"sections\": [}''))]) \<and>
   json_loads default_limits (replicate 1500 91) = Inl RecursionError \<and>
   parse_layout_text default_limits (replicate 1500 91) = None \<and>
   parse_layout_text default_limits (T '' '') = None"
proof -
  let ?t = "T ''{\"sections\": [}''"
  have s: "py_strip ?t \<noteq> []"
    by (simp add: py_strip_def py_isspace_def T_def)
  have l: "json_loads default_limits ?t = Inl JSONDecodeError"
    by (simp add: loads_eval)
  have r: "raw_content ?t = ?t"
    by (simp add: raw_content_def T_def)
  have v: "list_all scalar_value ?t"
    by (simp add: scalar_value_def T_def)
  have a: "parse_layout_text default_limits ?t = Some (JObj [(T ''raw_content'', JStr ?t)]) \<and>
           extract_layout_file default_limits (Some (utf16le_encode ?t))
             = Some (JObj [(T ''raw_content'', JStr ?t)])"
    using parse_layout_text_fallback [of ?t default_limits] s l r v by simp
  have d: "json_loads default_limits (replicate 1500 91) = Inl RecursionError"
    by (rule json_loads_too_deep) (simp add: default_limits_def)
  have b: "parse_layout_text default_limits (replicate 1500 91) = None"
    using parse_layout_text_fallback [of "replicate 1500 91" default_limits] d by simp
  have w: "\<forall>c \<in> set (T '' ''). py_isspace c"
    by (simp add: T_def py_isspace_def)
  have c: "parse_layout_text default_limits (T '' '') = None"
    using parse_layout_text_fallback [of "T '' ''" default_limits] w by blast
  from a d b c show ?thesis by simp
qed

text \<open>
  The claim as the spec words it fails on texts on which \<open>json.loads\<close> fails with
  another exception than JSONDecodeError. Under the default limits of the interpreter,
  1500 opening brackets raise RecursionError and an integer of 4301 digits raises
  ValueError; neither text is blank, and for both the parse step returns \<open>None\<close>: the
  member is discarded, no fallback value is returned.
\<close>

theorem parse_layout_text_discards:
  "json_loads default_limits (replicate 1500 91) = Inl RecursionError \<and>
   py_strip (replicate 1500 91) \<noteq> [] \<and>
   parse_layout_text default_limits (replicate 1500 91) = None \<and>
   json_loads default_limits (replicate 4301 49) = Inl ValueError \<and>
   py_strip (replicate 4301 49) \<noteq> [] \<and>
   parse_layout_text default_limits (replicate 4301 49) = None"
proof -
  have a: "json_loads default_limits (replicate 1500 91) = Inl RecursionError"
    by (rule json_loads_too_deep) (simp add: default_limits_def)
  have b: "json_loads default_limits (replicate 4301 49) = Inl ValueError"
    by (rule json_loads_too_long) (simp_all add: default_limits_def)
  have c: "py_strip (replicate 1500 91) \<noteq> []"
    by (simp add: py_strip_Nil_iff py_isspace_def)
  have d: "py_strip (replicate 4301 49) \<noteq> []"
    by (simp add: py_strip_Nil_iff py_isspace_def)
  show ?thesis
    using a b c d by (simp add: parse_layout_text_def)
qed


end
